theory Spec2Isabelle
  imports Complex_Main
begin

section \<open>JavaScript values\<close>

text \<open>
  The values the handlers see: what \<open>JSON.parse\<close> puts into \<open>req.body\<close>, what a
  property read returns (\<open>Undefined\<close> for a property that is not there), and what the
  database driver hands back for a column. A number is the real number that the double
  stands for. A string is a list of characters, one per UTF-16 code unit, so that
  \<open>length\<close> is JavaScript's \<open>.length\<close>. An object is the list of its own properties
  in insertion order.
\<close>

datatype jsval =
    Undefined
  | Null
  | Bool bool
  | Num real
  | Str string
  | Arr "jsval list"
  | Obj "(string \<times> jsval) list"

text \<open>\<open>!v\<close> is \<open>\<not> truthy v\<close>.\<close>

fun truthy :: "jsval \<Rightarrow> bool" where
  "truthy Undefined = False"
| "truthy Null = False"
| "truthy (Bool b) = b"
| "truthy (Num x) = (x \<noteq> 0)"
| "truthy (Str s) = (s \<noteq> [])"
| "truthy (Arr xs) = True"
| "truthy (Obj kvs) = True"

text \<open>The property read \<open>o.k\<close> on the own properties of an object.\<close>

definition get_prop :: "(string \<times> jsval) list \<Rightarrow> string \<Rightarrow> jsval" where
  "get_prop kvs k = (case map_of kvs k of None \<Rightarrow> Undefined | Some v \<Rightarrow> v)"

text \<open>
  \<open>a === b\<close> where one side is a primitive: equal type and equal value. Arrays and
  objects are compared by reference; two values that come from different places (a
  database row and a route parameter) are never the same reference.
\<close>

fun strict_eq :: "jsval \<Rightarrow> jsval \<Rightarrow> bool" where
  "strict_eq (Arr xs) b = False"
| "strict_eq (Obj kvs) b = False"
| "strict_eq a b = (a = b)"

text \<open>
  The rest pattern \<open>const { k, ...rest } = o\<close>: every own property of \<open>o\<close> but \<open>k\<close>.
\<close>

definition omit :: "string \<Rightarrow> (string \<times> jsval) list \<Rightarrow> (string \<times> jsval) list" where
  "omit k kvs = filter (\<lambda>kv. fst kv \<noteq> k) kvs"

text \<open>
  \<open>s.split(' ')\<close>: the pieces between the separators, empty pieces included; the
  result always has at least one piece.
\<close>

primrec split_on :: "char \<Rightarrow> string \<Rightarrow> string list" where
  "split_on c [] = [[]]"
| "split_on c (x # xs) =
     (if x = c then [] # split_on c xs
      else (case split_on c xs of
              [] \<Rightarrow> [[x]]
            | w # ws \<Rightarrow> (x # w) # ws))"

section \<open>Requests, responses, middleware\<close>

text \<open>
  A response is the status given to \<open>res.status\<close> and the value given to \<open>res.json\<close>;
  \<open>res.send()\<close> without an argument sends no payload. The Portuguese messages are
  written without their diacritics.
\<close>

record response =
  status :: nat
  payload :: "jsval option"

definition json_response :: "nat \<Rightarrow> jsval \<Rightarrow> response" where
  "json_response code v = \<lparr>status = code, payload = Some v\<rparr>"

definition error_response :: "nat \<Rightarrow> string \<Rightarrow> response" where
  "error_response code msg = json_response code (Obj [(''error'', Str msg)])"

definition error_details_response :: "nat \<Rightarrow> string \<Rightarrow> string \<Rightarrow> response" where
  "error_details_response code msg details =
     json_response code (Obj [(''error'', Str msg), (''details'', Str details)])"

text \<open>
  \<open>req.user\<close> as \<open>authenticateToken\<close> sets it: the row of
  \<open>SELECT id, username, email, is_admin FROM users WHERE id = ?\<close>.
\<close>

record auth_user =
  user_id :: jsval
  user_username :: jsval
  user_email :: jsval
  user_is_admin :: jsval

text \<open>
  The parts of an Express request the code reads: the \<open>Authorization\<close> header
  (\<open>None\<close> when the request has none), the route parameter \<open>:id\<close>, \<open>req.body\<close>
  as \<open>express.json()\<close> leaves it (the parsed object or array; for a request without
  a JSON body an object without properties or, from version 5 of Express on,
  \<open>undefined\<close>) and \<open>req.user\<close> (\<open>None\<close> until \<open>authenticateToken\<close> sets it).
\<close>

record request =
  authorization :: "string option"
  params_id :: string
  body :: jsval
  user :: "auth_user option"

text \<open>A middleware either answers the request or calls \<open>next()\<close>.\<close>

datatype outcome = Respond response | Next request

subsection \<open>authorize.js\<close>

definition requireAdmin :: "request \<Rightarrow> outcome" where
  "requireAdmin req =
     (case user req of
        None \<Rightarrow> Respond (error_response 401 ''Autenticacao necessaria'')
      | Some u \<Rightarrow>
          if \<not> truthy (user_is_admin u)
          then Respond (error_response 403 ''Acesso negado. Apenas administradores.'')
          else Next req)"

definition requireAdminOrOwner :: "request \<Rightarrow> outcome" where
  "requireAdminOrOwner req =
     (case user req of
        None \<Rightarrow> Respond (error_response 401 ''Autenticacao necessaria'')
      | Some u \<Rightarrow>
          (let isOwner = strict_eq (user_id u) (Str (params_id req));
               isAdmin = truthy (user_is_admin u)
           in if \<not> isAdmin \<and> \<not> isOwner
              then Respond (error_response 403 ''Acesso negado'')
              else Next req))"

section \<open>What the libraries do\<close>

text \<open>
  What a handler can catch: a \<open>SqliteError\<close> carries a \<open>code\<close> (each of the three
  constraint codes contains the text \<open>SQLITE_CONSTRAINT\<close>), the other errors have a
  \<open>name\<close> and no \<open>code\<close>.
\<close>

datatype sqlite_code =
    SQLITE_CONSTRAINT_UNIQUE
  | SQLITE_CONSTRAINT_PRIMARYKEY
  | SQLITE_CONSTRAINT_NOTNULL

datatype thrown =
    SqliteError sqlite_code
  | TypeError
  | RangeError
  | Error
  | JsonWebTokenError
  | TokenExpiredError
  | NotBeforeError

text \<open>\<open>error.code && error.code.includes('SQLITE_CONSTRAINT')\<close>\<close>

fun code_includes_constraint :: "thrown \<Rightarrow> bool" where
  "code_includes_constraint (SqliteError c) = True"
| "code_includes_constraint e = False"

text \<open>
  The pattern \<open>const { a, b } = v\<close>: a TypeError when \<open>v\<close> is \<open>undefined\<close> or
  \<open>null\<close>; otherwise the properties the names are read from, which for an array or a
  primitive hold none of the names the handlers read.
\<close>

fun destructure :: "jsval \<Rightarrow> thrown + (string \<times> jsval) list" where
  "destructure Undefined = Inl TypeError"
| "destructure Null = Inl TypeError"
| "destructure (Obj kvs) = Inr kvs"
| "destructure v = Inr []"

text \<open>
  What the process draws from outside during one request: the salted hash that
  \<open>bcrypt.hash(s, SALT_ROUNDS)\<close> returns for a string, the verdict of
  \<open>bcrypt.compare\<close> on two strings, the identifier \<open>uuidv4()\<close> returns, the token
  \<open>jwt.sign\<close> returns (\<open>None\<close> when it throws, as it does without a secret), the
  result of \<open>jwt.verify\<close> (the decoded payload, or the error it throws), SQLite's
  \<open>CURRENT_TIMESTAMP\<close>, the text SQLite stores for a number in a TEXT column, and
  JavaScript's conversion of a string, array or object to a number (\<open>None\<close> is NaN).
  The theorems hold for every such environment.
\<close>

record env =
  bcrypt_hash :: "string \<Rightarrow> string"
  bcrypt_compare :: "string \<Rightarrow> string \<Rightarrow> bool"
  uuidv4 :: string
  jwt_sign :: "jsval \<Rightarrow> string option"
  jwt_verify :: "string \<Rightarrow> thrown + jsval"
  current_timestamp :: string
  number_text :: "real \<Rightarrow> string"
  to_number :: "jsval \<Rightarrow> real option"

text \<open>
  \<open>bcrypt.hash(data, SALT_ROUNDS)\<close> rejects when \<open>data\<close> is not a string;
  \<open>bcrypt.compare(data, hash)\<close> rejects unless both are strings.
\<close>

definition bcrypt_hash_js :: "env \<Rightarrow> jsval \<Rightarrow> thrown + string" where
  "bcrypt_hash_js env data =
     (case data of Str s \<Rightarrow> Inr (bcrypt_hash env s) | _ \<Rightarrow> Inl Error)"

definition bcrypt_compare_js :: "env \<Rightarrow> jsval \<Rightarrow> jsval \<Rightarrow> thrown + bool" where
  "bcrypt_compare_js env data hash =
     (case data of
        Str s \<Rightarrow> (case hash of Str h \<Rightarrow> Inr (bcrypt_compare env s h) | _ \<Rightarrow> Inl Error)
      | _ \<Rightarrow> Inl Error)"

text \<open>
  The property read \<open>v.length\<close>: a TypeError on \<open>undefined\<close> and \<open>null\<close>, the
  length of a string or an array, the own property of an object, \<open>undefined\<close> on a
  number or a boolean.
\<close>

fun js_length :: "jsval \<Rightarrow> thrown + jsval" where
  "js_length Undefined = Inl TypeError"
| "js_length Null = Inl TypeError"
| "js_length (Bool b) = Inr Undefined"
| "js_length (Num x) = Inr Undefined"
| "js_length (Str s) = Inr (Num (real (length s)))"
| "js_length (Arr xs) = Inr (Num (real (length xs)))"
| "js_length (Obj kvs) = Inr (get_prop kvs ''length'')"

text \<open>\<open>v < n\<close> for a number \<open>n\<close>: \<open>v\<close> is converted to a number, NaN is not below anything.\<close>

fun js_less :: "env \<Rightarrow> jsval \<Rightarrow> real \<Rightarrow> bool" where
  "js_less env Undefined n = False"
| "js_less env Null n = (0 < n)"
| "js_less env (Bool b) n = ((if b then 1 else 0) < n)"
| "js_less env (Num x) n = (x < n)"
| "js_less env v n = (case to_number env v of None \<Rightarrow> False | Some x \<Rightarrow> x < n)"

section \<open>The users table\<close>

text \<open>A value SQLite stores in a column, and that the driver binds to a \<open>?\<close>.\<close>

datatype sqlval = SqlNull | SqlNum real | SqlText string

text \<open>
  Modelled from the spec: the \<open>CREATE TABLE\<close> statement of the table the handlers use
  is not among the sources (the two versions of \<open>initializeDatabase\<close> kept there
  declare \<open>id TEXT PRIMARY KEY\<close>, \<open>username TEXT NOT NULL\<close>,
  \<open>password_hash TEXT NOT NULL\<close>, \<open>email TEXT UNIQUE NOT NULL\<close> and
  \<open>created_at DATETIME DEFAULT CURRENT_TIMESTAMP\<close>, and no \<open>is_admin\<close>, which
  \<open>auth.js\<close>, the middleware and the tests read and write). The column \<open>is_admin\<close>
  and its place are taken from the spec: "a single users table/relation with columns id,
  username, password_hash, email (unique), is_admin, created_at".
\<close>

record user_row =
  id_col :: sqlval
  username :: sqlval
  password_hash :: sqlval
  email :: sqlval
  is_admin :: sqlval
  created_at :: sqlval

datatype column =
    Col_id
  | Col_username
  | Col_password_hash
  | Col_email
  | Col_is_admin
  | Col_created_at

text \<open>The rows of \<open>users\<close>, oldest first.\<close>

type_synonym store = "user_row list"

text \<open>
  Modelled from the spec: the default of the missing column declaration, "\<open>is_admin\<close>:
  boolean role flag, defaults to false", which SQLite stores as the number 0.
\<close>

definition is_admin_default :: sqlval where
  "is_admin_default = SqlNum 0"

text \<open>
  How the driver (better-sqlite3) binds the arguments of \<open>run\<close> and \<open>get\<close> to the
  \<open>?\<close> of a statement: a number, a string, \<open>null\<close> or \<open>undefined\<close> is one value;
  an array stands for its elements, each of which must be such a value; a plain object
  carries named parameters only, of which these statements have none, and at most one
  object may be given; a boolean is refused. The number of values must be the number
  of \<open>?\<close>.
\<close>

fun bind_value :: "jsval \<Rightarrow> sqlval option" where
  "bind_value Undefined = Some SqlNull"
| "bind_value Null = Some SqlNull"
| "bind_value (Num x) = Some (SqlNum x)"
| "bind_value (Str s) = Some (SqlText s)"
| "bind_value (Bool b) = None"
| "bind_value (Arr xs) = None"
| "bind_value (Obj kvs) = None"

fun bind_arg :: "jsval \<Rightarrow> sqlval list option" where
  "bind_arg (Arr xs) = those (map bind_value xs)"
| "bind_arg (Obj kvs) = Some []"
| "bind_arg v = map_option (\<lambda>x. [x]) (bind_value v)"

fun is_Obj :: "jsval \<Rightarrow> bool" where
  "is_Obj (Obj kvs) = True"
| "is_Obj v = False"

definition bind_params :: "nat \<Rightarrow> jsval list \<Rightarrow> thrown + sqlval list" where
  "bind_params n args =
     (case those (map bind_arg args) of
        None \<Rightarrow> Inl TypeError
      | Some vss \<Rightarrow>
          if 1 < length (filter is_Obj args) then Inl TypeError
          else if length (concat vss) = n then Inr (concat vss)
          else Inl RangeError)"

text \<open>
  A column of type TEXT stores a number as its text. The other columns
  (\<open>is_admin\<close>, \<open>created_at\<close>) keep a number as a number.
\<close>

fun text_affinity :: "env \<Rightarrow> sqlval \<Rightarrow> sqlval" where
  "text_affinity env (SqlNum x) = SqlText (number_text env x)"
| "text_affinity env v = v"

text \<open>SQL's \<open>=\<close>: never true of NULL.\<close>

definition sql_eq :: "sqlval \<Rightarrow> sqlval \<Rightarrow> bool" where
  "sql_eq a b = (a \<noteq> SqlNull \<and> b \<noteq> SqlNull \<and> a = b)"

fun set_column :: "env \<Rightarrow> column \<times> sqlval \<Rightarrow> user_row \<Rightarrow> user_row" where
  "set_column env (Col_id, v) r = r\<lparr>id_col := text_affinity env v\<rparr>"
| "set_column env (Col_username, v) r = r\<lparr>username := text_affinity env v\<rparr>"
| "set_column env (Col_password_hash, v) r = r\<lparr>password_hash := text_affinity env v\<rparr>"
| "set_column env (Col_email, v) r = r\<lparr>email := text_affinity env v\<rparr>"
| "set_column env (Col_is_admin, v) r = r\<lparr>is_admin := v\<rparr>"
| "set_column env (Col_created_at, v) r = r\<lparr>created_at := v\<rparr>"

text \<open>A row before its \<open>INSERT\<close> names any column: every column at its default.\<close>

definition default_row :: "env \<Rightarrow> user_row" where
  "default_row env =
     \<lparr>id_col = SqlNull, username = SqlNull, password_hash = SqlNull, email = SqlNull,
      is_admin = is_admin_default, created_at = SqlText (current_timestamp env)\<rparr>"

definition not_null_ok :: "user_row \<Rightarrow> bool" where
  "not_null_ok r =
     (username r \<noteq> SqlNull \<and> password_hash r \<noteq> SqlNull \<and> email r \<noteq> SqlNull)"

text \<open>
  \<open>db.prepare('INSERT INTO users (cols) VALUES (?, ...)').run(args)\<close>: the row is
  added unless a constraint refuses it.
\<close>

definition sql_insert :: "env \<Rightarrow> store \<Rightarrow> column list \<Rightarrow> jsval list \<Rightarrow> thrown + store" where
  "sql_insert env db cols args =
     (case bind_params (length cols) args of
        Inl e \<Rightarrow> Inl e
      | Inr vs \<Rightarrow>
          (let r = fold (set_column env) (zip cols vs) (default_row env)
           in if \<not> not_null_ok r then Inl (SqliteError SQLITE_CONSTRAINT_NOTNULL)
              else if list_ex (\<lambda>x. sql_eq (id_col x) (id_col r)) db
              then Inl (SqliteError SQLITE_CONSTRAINT_PRIMARYKEY)
              else if list_ex (\<lambda>x. sql_eq (email x) (email r)) db
              then Inl (SqliteError SQLITE_CONSTRAINT_UNIQUE)
              else Inr (db @ [r])))"

text \<open>
  \<open>db.prepare('UPDATE users SET c = ?, ... WHERE id = ?').run(args)\<close>: the last value
  is the key; the rows with that id get the other values, unless a new row breaks a
  constraint, and then no row changes.
\<close>

definition sql_update :: "env \<Rightarrow> store \<Rightarrow> column list \<Rightarrow> jsval list \<Rightarrow> thrown + store" where
  "sql_update env db cols args =
     (case bind_params (length cols + 1) args of
        Inl e \<Rightarrow> Inl e
      | Inr vs \<Rightarrow>
          (case drop (length cols) vs of
             [k] \<Rightarrow>
               (let hit = (\<lambda>r. sql_eq (id_col r) (text_affinity env k));
                    upd = fold (set_column env) (zip cols vs);
                    new = map upd (filter hit db);
                    others = filter (\<lambda>r. \<not> hit r) db
                in if list_ex (\<lambda>r. \<not> not_null_ok r) new
                   then Inl (SqliteError SQLITE_CONSTRAINT_NOTNULL)
                   else if list_ex (\<lambda>r. list_ex (\<lambda>x. sql_eq (id_col x) (id_col r)) others) new
                   then Inl (SqliteError SQLITE_CONSTRAINT_PRIMARYKEY)
                   else if list_ex (\<lambda>r. list_ex (\<lambda>x. sql_eq (email x) (email r)) others) new
                   then Inl (SqliteError SQLITE_CONSTRAINT_UNIQUE)
                   else Inr (map (\<lambda>r. if hit r then upd r else r) db))
           | _ \<Rightarrow> Inl RangeError))"

text \<open>\<open>db.prepare('DELETE FROM users WHERE id = ?').run(arg)\<close>\<close>

definition sql_delete :: "env \<Rightarrow> store \<Rightarrow> jsval \<Rightarrow> thrown + store" where
  "sql_delete env db arg =
     (case bind_params 1 [arg] of
        Inl e \<Rightarrow> Inl e
      | Inr vs \<Rightarrow>
          (case vs of
             [k] \<Rightarrow> Inr (filter (\<lambda>r. \<not> sql_eq (id_col r) (text_affinity env k)) db)
           | _ \<Rightarrow> Inl RangeError))"

text \<open>
  \<open>db.prepare('SELECT ... FROM users WHERE id = ?').get(arg)\<close> and the same by email:
  the first row that matches, if any.
\<close>

definition select_by_id :: "env \<Rightarrow> store \<Rightarrow> jsval \<Rightarrow> thrown + user_row option" where
  "select_by_id env db arg =
     (case bind_params 1 [arg] of
        Inl e \<Rightarrow> Inl e
      | Inr vs \<Rightarrow>
          (case vs of
             [k] \<Rightarrow> Inr (find (\<lambda>r. sql_eq (id_col r) (text_affinity env k)) db)
           | _ \<Rightarrow> Inl RangeError))"

definition select_by_email :: "env \<Rightarrow> store \<Rightarrow> jsval \<Rightarrow> thrown + user_row option" where
  "select_by_email env db arg =
     (case bind_params 1 [arg] of
        Inl e \<Rightarrow> Inl e
      | Inr vs \<Rightarrow>
          (case vs of
             [k] \<Rightarrow> Inr (find (\<lambda>r. sql_eq (email r) (text_affinity env k)) db)
           | _ \<Rightarrow> Inl RangeError))"

text \<open>A row as the JavaScript object the driver returns for \<open>SELECT *\<close>.\<close>

fun js_of_sql :: "sqlval \<Rightarrow> jsval" where
  "js_of_sql SqlNull = Null"
| "js_of_sql (SqlNum x) = Num x"
| "js_of_sql (SqlText s) = Str s"

definition row_object :: "user_row \<Rightarrow> (string \<times> jsval) list" where
  "row_object r =
     [(''id'', js_of_sql (id_col r)),
      (''username'', js_of_sql (username r)),
      (''password_hash'', js_of_sql (password_hash r)),
      (''email'', js_of_sql (email r)),
      (''is_admin'', js_of_sql (is_admin r)),
      (''created_at'', js_of_sql (created_at r))]"

text \<open>The row of \<open>SELECT id, username, email, is_admin\<close>.\<close>

definition auth_row :: "user_row \<Rightarrow> auth_user" where
  "auth_row r =
     \<lparr>user_id = js_of_sql (id_col r), user_username = js_of_sql (username r),
      user_email = js_of_sql (email r), user_is_admin = js_of_sql (is_admin r)\<rparr>"

section \<open>The authentication middleware\<close>

text \<open>
  \<open>authHeader && authHeader.split(' ')[1]\<close>: \<open>None\<close> is \<open>undefined\<close> (no header,
  or no second piece); an empty header is its own, empty, value.
\<close>

definition header_token :: "string option \<Rightarrow> string option" where
  "header_token authHeader =
     (case authHeader of
        None \<Rightarrow> None
      | Some h \<Rightarrow>
          if h = [] then Some []
          else (case split_on CHR '' '' h of
                  a # t # rest \<Rightarrow> Some t
                | _ \<Rightarrow> None))"

text \<open>\<open>decoded.userId\<close> on what \<open>jwt.verify\<close> returns (an object, or a string).\<close>

fun decoded_userId :: "jsval \<Rightarrow> jsval" where
  "decoded_userId (Obj kvs) = get_prop kvs ''userId''"
| "decoded_userId v = Undefined"

definition authenticate_catch :: "thrown \<Rightarrow> response" where
  "authenticate_catch e =
     (if e = JsonWebTokenError then error_response 403 ''Token invalido''
      else if e = TokenExpiredError then error_response 403 ''Token expirado''
      else error_response 500 ''Erro ao verificar token'')"

definition authenticateToken :: "env \<Rightarrow> store \<Rightarrow> request \<Rightarrow> outcome" where
  "authenticateToken env db req =
     (case header_token (authorization req) of
        None \<Rightarrow> Respond (error_response 401 ''Token nao fornecido'')
      | Some token \<Rightarrow>
          if token = [] then Respond (error_response 401 ''Token nao fornecido'')
          else (case jwt_verify env token of
                  Inl e \<Rightarrow> Respond (authenticate_catch e)
                | Inr decoded \<Rightarrow>
                    (case select_by_id env db (decoded_userId decoded) of
                       Inl e \<Rightarrow> Respond (authenticate_catch e)
                     | Inr None \<Rightarrow> Respond (error_response 401 ''Usuario nao encontrado'')
                     | Inr (Some u) \<Rightarrow> Next (req\<lparr>user := Some (auth_row u)\<rparr>))))"

section \<open>The routes of auth.js\<close>

definition constraint_response :: response where
  "constraint_response =
     error_details_response 400 ''Email ja esta em uso''
       ''Um usuario com este email ja existe no sistema''"

definition missing_fields_response :: response where
  "missing_fields_response =
     error_details_response 400 ''Campos obrigatorios faltando''
       ''username, password e email sao obrigatorios''"

definition weak_password_response :: response where
  "weak_password_response =
     error_details_response 400 ''Senha muito fraca''
       ''A senha deve ter no minimo 8 caracteres''"

definition register_catch :: "thrown \<Rightarrow> response" where
  "register_catch e =
     (if code_includes_constraint e then constraint_response
      else error_response 500 ''Erro ao registrar usuario'')"

text \<open>\<open>POST /auth/register\<close>: the response and the table after it.\<close>

definition register :: "env \<Rightarrow> store \<Rightarrow> request \<Rightarrow> response \<times> store" where
  "register env db req =
     (case destructure (body req) of
        Inl e \<Rightarrow> (register_catch e, db)
      | Inr props \<Rightarrow>
     (let username = get_prop props ''username'';
          password = get_prop props ''password'';
          email = get_prop props ''email''
      in if \<not> truthy username \<or> \<not> truthy password \<or> \<not> truthy email
         then (missing_fields_response, db)
         else (case js_length password of
                 Inl e \<Rightarrow> (register_catch e, db)
               | Inr len \<Rightarrow>
                   if js_less env len 8 then (weak_password_response, db)
                   else (case bcrypt_hash_js env password of
                           Inl e \<Rightarrow> (register_catch e, db)
                         | Inr hash \<Rightarrow>
                             (let id = uuidv4 env
                              in case sql_insert env db
                                        [Col_id, Col_username, Col_password_hash, Col_email,
                                         Col_is_admin]
                                        [Str id, username, Str hash, email, Num 0] of
                                   Inl e \<Rightarrow> (register_catch e, db)
                                 | Inr db' \<Rightarrow>
                                     (case jwt_sign env
                                             (Obj [(''userId'', Str id), (''username'', username),
                                                   (''email'', email), (''is_admin'', Bool False)]) of
                                        None \<Rightarrow> (register_catch Error, db')
                                      | Some token \<Rightarrow>
                                          (json_response 201
                                             (Obj [(''message'', Str ''Usuario criado com sucesso''),
                                                   (''token'', Str token),
                                                   (''user'',
                                                    Obj [(''id'', Str id), (''username'', username),
                                                         (''email'', email),
                                                         (''is_admin'', Bool False)])]),
                                           db')))))))"

definition login_missing_response :: response where
  "login_missing_response =
     error_details_response 400 ''Campos obrigatorios faltando''
       ''email e password sao obrigatorios''"

definition invalid_credentials_response :: response where
  "invalid_credentials_response = error_response 401 ''Credenciais invalidas''"

definition login_catch :: "thrown \<Rightarrow> response" where
  "login_catch e = error_response 500 ''Erro ao fazer login''"

text \<open>\<open>POST /auth/login\<close>; it writes nothing.\<close>

definition login :: "env \<Rightarrow> store \<Rightarrow> request \<Rightarrow> response" where
  "login env db req =
     (case destructure (body req) of
        Inl e \<Rightarrow> login_catch e
      | Inr props \<Rightarrow>
     (let email = get_prop props ''email'';
          password = get_prop props ''password''
      in if \<not> truthy email \<or> \<not> truthy password then login_missing_response
         else (case select_by_email env db email of
                 Inl e \<Rightarrow> login_catch e
               | Inr None \<Rightarrow> invalid_credentials_response
               | Inr (Some u) \<Rightarrow>
                   (case bcrypt_compare_js env password (js_of_sql (password_hash u)) of
                      Inl e \<Rightarrow> login_catch e
                    | Inr passwordMatch \<Rightarrow>
                        if \<not> passwordMatch then invalid_credentials_response
                        else (case jwt_sign env
                                     (Obj [(''userId'', js_of_sql (id_col u)),
                                           (''username'', js_of_sql (username u)),
                                           (''email'', js_of_sql (user_row.email u)),
                                           (''is_admin'', Bool (truthy (js_of_sql (is_admin u))))]) of
                                None \<Rightarrow> login_catch Error
                              | Some token \<Rightarrow>
                                  json_response 200
                                    (Obj [(''message'', Str ''Login realizado com sucesso''),
                                          (''token'', Str token),
                                          (''user'',
                                           Obj [(''id'', js_of_sql (id_col u)),
                                                (''username'', js_of_sql (username u)),
                                                (''email'', js_of_sql (user_row.email u)),
                                                (''is_admin'',
                                                 Bool (truthy (js_of_sql (is_admin u))))])]))))))"

section \<open>The routes of users.js\<close>

text \<open>\<open>const { password_hash, ...user } = row\<close>\<close>

definition without_password :: "user_row \<Rightarrow> jsval" where
  "without_password r = Obj (omit ''password_hash'' (row_object r))"

definition not_found_response :: response where
  "not_found_response = error_response 404 ''Usuario nao encontrado''"

text \<open>The handler of \<open>GET /users\<close>.\<close>

definition list_users :: "store \<Rightarrow> response" where
  "list_users db = json_response 200 (Arr (map without_password db))"

text \<open>The handler of \<open>GET /users/:id\<close>.\<close>

definition get_user :: "env \<Rightarrow> store \<Rightarrow> request \<Rightarrow> response" where
  "get_user env db req =
     (case select_by_id env db (Str (params_id req)) of
        Inl e \<Rightarrow> error_response 500 ''Erro ao buscar usuario''
      | Inr None \<Rightarrow> not_found_response
      | Inr (Some u) \<Rightarrow> json_response 200 (without_password u))"

definition create_catch :: "thrown \<Rightarrow> response" where
  "create_catch e =
     (if code_includes_constraint e then constraint_response
      else error_response 500 ''Erro ao criar usuario'')"

text \<open>The handler of \<open>POST /users\<close>.\<close>

definition create_user :: "env \<Rightarrow> store \<Rightarrow> request \<Rightarrow> response \<times> store" where
  "create_user env db req =
     (case destructure (body req) of
        Inl e \<Rightarrow> (create_catch e, db)
      | Inr props \<Rightarrow>
     (let username = get_prop props ''username'';
          password = get_prop props ''password'';
          email = get_prop props ''email''
      in if \<not> truthy username \<or> \<not> truthy password \<or> \<not> truthy email
         then (missing_fields_response, db)
         else (case js_length password of
                 Inl e \<Rightarrow> (create_catch e, db)
               | Inr len \<Rightarrow>
                   if js_less env len 8 then (weak_password_response, db)
                   else (case bcrypt_hash_js env password of
                           Inl e \<Rightarrow> (create_catch e, db)
                         | Inr hash \<Rightarrow>
                             (let id = uuidv4 env
                              in case sql_insert env db
                                        [Col_id, Col_username, Col_password_hash, Col_email]
                                        [Str id, username, Str hash, email] of
                                   Inl e \<Rightarrow> (create_catch e, db)
                                 | Inr db' \<Rightarrow>
                                     (case select_by_id env db' (Str id) of
                                        Inl e \<Rightarrow> (create_catch e, db')
                                      | Inr None \<Rightarrow> (create_catch TypeError, db')
                                      | Inr (Some newUser) \<Rightarrow>
                                          (json_response 201 (without_password newUser), db')))))))"

definition update_catch :: "thrown \<Rightarrow> response" where
  "update_catch e =
     (if code_includes_constraint e then constraint_response
      else error_response 500 ''Erro ao atualizar usuario'')"

definition no_fields_response :: response where
  "no_fields_response =
     error_details_response 400 ''Nenhum campo para atualizar''
       ''Forneca ao menos um campo: username, password ou email''"

text \<open>
  The staging of \<open>PUT /users/:id\<close>: the columns pushed to \<open>updates\<close> and the values
  pushed to \<open>values\<close>, in the order of the three \<open>if\<close>s; hashing the password can
  throw.
\<close>

definition stage_updates ::
  "env \<Rightarrow> (string \<times> jsval) list \<Rightarrow> thrown + column list \<times> jsval list" where
  "stage_updates env props =
     (let username = get_prop props ''username'';
          password = get_prop props ''password'';
          email = get_prop props ''email'';
          staged1 = (if username \<noteq> Undefined then ([Col_username], [username]) else ([], []))
      in case (if password \<noteq> Undefined
               then (case bcrypt_hash_js env password of
                       Inl e \<Rightarrow> Inl e
                     | Inr hash \<Rightarrow>
                         Inr (fst staged1 @ [Col_password_hash], snd staged1 @ [Str hash]))
               else Inr staged1) of
           Inl e \<Rightarrow> Inl e
         | Inr staged2 \<Rightarrow>
             Inr (if email \<noteq> Undefined
                  then (fst staged2 @ [Col_email], snd staged2 @ [email])
                  else staged2))"

text \<open>The handler of \<open>PUT /users/:id\<close>.\<close>

definition update_user :: "env \<Rightarrow> store \<Rightarrow> request \<Rightarrow> response \<times> store" where
  "update_user env db req =
     (let id = params_id req
      in case select_by_id env db (Str id) of
           Inl e \<Rightarrow> (update_catch e, db)
         | Inr None \<Rightarrow> (not_found_response, db)
         | Inr (Some existingUser) \<Rightarrow>
             (case destructure (body req) of
                Inl e \<Rightarrow> (update_catch e, db)
              | Inr props \<Rightarrow>
             (case stage_updates env props of
                Inl e \<Rightarrow> (update_catch e, db)
              | Inr (updates, vals) \<Rightarrow>
                  if length updates = 0 then (no_fields_response, db)
                  else (case sql_update env db updates (vals @ [Str id]) of
                          Inl e \<Rightarrow> (update_catch e, db)
                        | Inr db' \<Rightarrow>
                            (case select_by_id env db' (Str id) of
                               Inl e \<Rightarrow> (update_catch e, db')
                             | Inr None \<Rightarrow> (update_catch TypeError, db')
                             | Inr (Some updatedUser) \<Rightarrow>
                                 (json_response 200 (without_password updatedUser), db'))))))"

text \<open>The handler of \<open>DELETE /users/:id\<close>; \<open>res.status(204).send()\<close> has no payload.\<close>

definition delete_user :: "env \<Rightarrow> store \<Rightarrow> request \<Rightarrow> response \<times> store" where
  "delete_user env db req =
     (let id = params_id req
      in case select_by_id env db (Str id) of
           Inl e \<Rightarrow> (error_response 500 ''Erro ao excluir usuario'', db)
         | Inr None \<Rightarrow> (not_found_response, db)
         | Inr (Some existingUser) \<Rightarrow>
             (case sql_delete env db (Str id) of
                Inl e \<Rightarrow> (error_response 500 ''Erro ao excluir usuario'', db)
              | Inr db' \<Rightarrow> (\<lparr>status = 204, payload = None\<rparr>, db')))"

text \<open>
  A route runs its middleware in order; the handler runs only when each of them has
  called \<open>next()\<close>.
\<close>

definition protected ::
  "env \<Rightarrow> (request \<Rightarrow> outcome) \<Rightarrow> (request \<Rightarrow> response \<times> store) \<Rightarrow> store \<Rightarrow> request
     \<Rightarrow> response \<times> store" where
  "protected env authorize handler db req =
     (case authenticateToken env db req of
        Respond r \<Rightarrow> (r, db)
      | Next req1 \<Rightarrow>
          (case authorize req1 of
             Respond r \<Rightarrow> (r, db)
           | Next req2 \<Rightarrow> handler req2))"

definition route_list_users :: "env \<Rightarrow> store \<Rightarrow> request \<Rightarrow> response \<times> store" where
  "route_list_users env db = protected env requireAdmin (\<lambda>req. (list_users db, db)) db"

definition route_get_user :: "env \<Rightarrow> store \<Rightarrow> request \<Rightarrow> response \<times> store" where
  "route_get_user env db =
     protected env requireAdminOrOwner (\<lambda>req. (get_user env db req, db)) db"

definition route_create_user :: "env \<Rightarrow> store \<Rightarrow> request \<Rightarrow> response \<times> store" where
  "route_create_user env db = protected env requireAdmin (create_user env db) db"

definition route_update_user :: "env \<Rightarrow> store \<Rightarrow> request \<Rightarrow> response \<times> store" where
  "route_update_user env db = protected env requireAdminOrOwner (update_user env db) db"

definition route_delete_user :: "env \<Rightarrow> store \<Rightarrow> request \<Rightarrow> response \<times> store" where
  "route_delete_user env db = protected env requireAdmin (delete_user env db) db"

section \<open>Properties of responses and of the table\<close>

text \<open>A user object of a response: an object without the property \<open>password_hash\<close>.\<close>

fun lacks_password_hash :: "jsval \<Rightarrow> bool" where
  "lacks_password_hash (Obj kvs) = (''password_hash'' \<notin> set (map fst kvs))"
| "lacks_password_hash v = False"

text \<open>The property \<open>user\<close> of the payload of a response (\<open>Undefined\<close> without one).\<close>

definition payload_user :: "response \<Rightarrow> jsval" where
  "payload_user r =
     (case payload r of
        Some (Obj kvs) \<Rightarrow> get_prop kvs ''user''
      | _ \<Rightarrow> Undefined)"

text \<open>
  The constraints the table declares, as a property of its rows: no two rows with the
  same id, no two rows with the same email.
\<close>

definition constraints_hold :: "store \<Rightarrow> bool" where
  "constraints_hold db = (distinct (map id_col db) \<and> distinct (map email db))"

text \<open>
  The row that \<open>INSERT\<close> adds for the id \<open>i\<close> and the three values bound to
  \<open>username\<close>, \<open>password_hash\<close> and \<open>email\<close>, with \<open>is_admin\<close> at 0.
\<close>

definition new_row :: "env \<Rightarrow> string \<Rightarrow> sqlval \<Rightarrow> sqlval \<Rightarrow> sqlval \<Rightarrow> user_row" where
  "new_row env i a b c =
     \<lparr>id_col = SqlText i, username = text_affinity env a, password_hash = text_affinity env b,
      email = text_affinity env c, is_admin = SqlNum 0,
      created_at = SqlText (current_timestamp env)\<rparr>"

text \<open>The value a row has in a column.\<close>

fun column_value :: "column \<Rightarrow> user_row \<Rightarrow> sqlval" where
  "column_value Col_id r = id_col r"
| "column_value Col_username r = username r"
| "column_value Col_password_hash r = password_hash r"
| "column_value Col_email r = email r"
| "column_value Col_is_admin r = is_admin r"
| "column_value Col_created_at r = created_at r"

section \<open>A concrete environment and table\<close>

text \<open>
  An environment, two rows and a request to evaluate the handlers on: the hash of a
  password is the password behind a fixed prefix, three tokens verify (for the
  administrator, for alice, and for a user who is not in the table), one is expired,
  and every other token is refused.
\<close>

definition demo_env :: env where
  "demo_env =
     \<lparr>bcrypt_hash = (\<lambda>s. ''$2b$10$'' @ s),
      bcrypt_compare = (\<lambda>s h. h = ''$2b$10$'' @ s),
      uuidv4 = ''id-2'',
      jwt_sign = (\<lambda>p. Some ''signed''),
      jwt_verify =
        (\<lambda>t. if t = ''root-token'' then Inr (Obj [(''userId'', Str ''id-0'')])
             else if t = ''alice-token'' then Inr (Obj [(''userId'', Str ''id-1'')])
             else if t = ''ghost-token'' then Inr (Obj [(''userId'', Str ''id-9'')])
             else if t = ''old-token'' then Inl TokenExpiredError
             else Inl JsonWebTokenError),
      current_timestamp = ''2026-01-01 00:00:00'',
      number_text = (\<lambda>x. ''0''),
      to_number = (\<lambda>v. None)\<rparr>"

definition root_row :: user_row where
  "root_row =
     \<lparr>id_col = SqlText ''id-0'', username = SqlText ''root'',
      password_hash = SqlText ''$2b$10$rootpassword'', email = SqlText ''root@x.com'',
      is_admin = SqlNum 1, created_at = SqlText ''2025-12-30 00:00:00''\<rparr>"

definition alice_row :: user_row where
  "alice_row =
     \<lparr>id_col = SqlText ''id-1'', username = SqlText ''alice'',
      password_hash = SqlText ''$2b$10$password1'', email = SqlText ''a@x.com'',
      is_admin = SqlNum 0, created_at = SqlText ''2025-12-31 00:00:00''\<rparr>"

definition demo_db :: store where
  "demo_db = [root_row, alice_row]"

definition demo_request :: request where
  "demo_request = \<lparr>authorization = None, params_id = ''id-1'', body = Obj [], user = None\<rparr>"

text \<open>A registration that also asks to be an administrator.\<close>

definition bob_body :: "(string \<times> jsval) list" where
  "bob_body =
     [(''username'', Str ''bob''), (''password'', Str ''password2''), (''email'', Str ''b@x.com''),
      (''is_admin'', Bool True)]"

text \<open>A second registration with the email of alice.\<close>

definition second_alice_body :: "(string \<times> jsval) list" where
  "second_alice_body =
     [(''username'', Str ''alice2''), (''password'', Str ''password9''), (''email'', Str ''a@x.com'')]"

section \<open>Facts about the model\<close>

subsection \<open>Responses\<close>

lemmas response_defs = error_response_def json_response_def error_details_response_def
  constraint_response_def missing_fields_response_def weak_password_response_def
  register_catch_def login_missing_response_def invalid_credentials_response_def login_catch_def
  not_found_response_def create_catch_def update_catch_def no_fields_response_def
  authenticate_catch_def

subsection \<open>Statements on strings\<close>

text \<open>
  A string is bound as itself, so a statement keyed by a string compares the column with that text.
\<close>

lemma bind_params_Str: "bind_params (Suc 0) [Str s] = Inr [SqlText s]"
  by (simp add: bind_params_def)

lemma sql_eq_text: "sql_eq a (SqlText s) = (a = SqlText s)"
  by (auto simp: sql_eq_def)

lemma select_by_id_Str:
  "select_by_id env db (Str i) = Inr (find (\<lambda>r. sql_eq (id_col r) (SqlText i)) db)"
  by (simp add: select_by_id_def bind_params_Str)

lemma select_by_email_Str:
  "select_by_email env db (Str e) = Inr (find (\<lambda>r. sql_eq (email r) (SqlText e)) db)"
  by (simp add: select_by_email_def bind_params_Str)

lemma sql_delete_Str:
  "sql_delete env db (Str i) = Inr (filter (\<lambda>r. \<not> sql_eq (id_col r) (SqlText i)) db)"
  by (simp add: sql_delete_def bind_params_Str)

lemma find_None_no_row:
  "\<not> list_ex (\<lambda>r. id_col r = SqlText i) db \<Longrightarrow> find (\<lambda>r. sql_eq (id_col r) (SqlText i)) db = None"
  by (auto simp: find_None_iff list_ex_iff sql_eq_def)

lemma sql_delete_removes:
  "\<not> list_ex (\<lambda>r. id_col r = SqlText i) (filter (\<lambda>r. \<not> sql_eq (id_col r) (SqlText i)) db)"
  by (auto simp: list_ex_iff sql_eq_def)

lemma find_new_row:
  "\<not> list_ex (\<lambda>x. id_col x = SqlText i) db \<Longrightarrow>
     find (\<lambda>r. sql_eq (id_col r) (SqlText i)) (db @ [new_row env i a b c]) = Some (new_row env i a b c)"
  by (induction db) (auto simp: sql_eq_def new_row_def)

subsection \<open>The middleware\<close>

text \<open>
  What \<open>authenticateToken\<close> and the two predicates can answer, and what a route does with it.
\<close>

lemma authenticateToken_Respond_status:
  "authenticateToken env db req = Respond r \<Longrightarrow> status r = 401 \<or> status r = 403 \<or> status r = 500"
  by (auto simp: authenticateToken_def response_defs split: option.splits if_splits sum.splits)

lemma requireAdmin_Respond_status:
  "requireAdmin req = Respond r \<Longrightarrow> status r = 401 \<or> status r = 403"
  by (auto simp: requireAdmin_def response_defs split: option.splits if_splits)

lemma requireAdminOrOwner_Respond_status:
  "requireAdminOrOwner req = Respond r \<Longrightarrow> status r = 401 \<or> status r = 403"
  by (auto simp: requireAdminOrOwner_def Let_def response_defs split: option.splits if_splits)

lemma requireAdmin_denies:
  "\<forall>q x. requireAdmin q = Respond x \<longrightarrow> status x = 401 \<or> status x = 403"
  using requireAdmin_Respond_status by blast

lemma requireAdminOrOwner_denies:
  "\<forall>q x. requireAdminOrOwner q = Respond x \<longrightarrow> status x = 401 \<or> status x = 403"
  using requireAdminOrOwner_Respond_status by blast

lemma authenticateToken_Next_user:
  "authenticateToken env db req = Next req1 \<Longrightarrow>
     \<exists>u. req1 = req\<lparr>user := Some u\<rparr>"
  by (auto simp: authenticateToken_def split: option.splits if_splits sum.splits)

lemma requireAdmin_Next: "requireAdmin req = Next req2 \<Longrightarrow> req2 = req"
  by (auto simp: requireAdmin_def split: option.splits if_splits)


lemma requireAdmin_same: "\<forall>q q'. requireAdmin q = Next q' \<longrightarrow> q' = q"
  using requireAdmin_Next by blast


lemma protected_Respond:
  "authenticateToken env db req = Respond r \<Longrightarrow> protected env a h db req = (r, db)"
  by (simp add: protected_def)

lemma protected_cases:
  assumes "protected env a h db req = (r, db')"
    and "\<forall>q x. a q = Respond x \<longrightarrow> status x = 401 \<or> status x = 403"
  shows "(db' = db \<and> (status r = 401 \<or> status r = 403 \<or> status r = 500))
       \<or> (\<exists>req2. h req2 = (r, db'))"
proof (cases "authenticateToken env db req")
  case (Respond x)
  with assms(1) authenticateToken_Respond_status[OF Respond] show ?thesis
    by (auto simp: protected_def)
next
  case (Next req1)
  show ?thesis
  proof (cases "a req1")
    case (Respond x)
    with Next assms show ?thesis
      by (auto simp: protected_def)
  next
    case (Next req2)
    with \<open>authenticateToken env db req = Next req1\<close> assms(1) show ?thesis
      by (auto simp: protected_def)
  qed
qed

lemma protected_request:
  assumes "protected env a h db req = (r, db')" and "\<forall>q q'. a q = Next q' \<longrightarrow> q' = q"
  shows "db' = db \<or> (\<exists>u. h (req\<lparr>user := Some u\<rparr>) = (r, db'))"
proof (cases "authenticateToken env db req")
  case (Respond x)
  with assms(1) show ?thesis by (simp add: protected_def)
next
  case (Next req1)
  then obtain u where u: "req1 = req\<lparr>user := Some u\<rparr>"
    using authenticateToken_Next_user by blast
  show ?thesis
  proof (cases "a req1")
    case (Respond x)
    with Next assms(1) show ?thesis by (simp add: protected_def)
  next
    case (Next req2)
    with assms(2) have "req2 = req1" by blast
    with Next \<open>authenticateToken env db req = Next req1\<close> assms(1) u show ?thesis
      by (auto simp: protected_def)
  qed
qed

subsection \<open>The Authorization header\<close>

text \<open>
  The pieces of the header and the token \<open>authenticateToken\<close> takes from them.
\<close>

lemma split_on_no_separator: "c \<notin> set xs \<Longrightarrow> split_on c xs = [xs]"
  by (induction xs) auto

lemma split_on_first:
  "split_on c xs =
     takeWhile (\<lambda>x. x \<noteq> c) xs #
       (case dropWhile (\<lambda>x. x \<noteq> c) xs of [] \<Rightarrow> [] | y # ys \<Rightarrow> split_on c ys)"
  by (induction xs) (auto split: list.splits)

lemma split_on_separator:
  "c \<notin> set a \<Longrightarrow> split_on c (a @ c # rest) = a # split_on c rest"
  by (induction a) auto

lemma header_token_None: "header_token None = None"
  by (simp add: header_token_def)

lemma header_token_no_space:
  "CHR '' '' \<notin> set h \<Longrightarrow> header_token (Some h) = (if h = [] then Some [] else None)"
  by (simp add: header_token_def split_on_no_separator)

lemma header_token_second_piece:
  "CHR '' '' \<notin> set scheme \<Longrightarrow>
     header_token (Some (scheme @ CHR '' '' # rest)) = Some (takeWhile (\<lambda>x. x \<noteq> CHR '' '') rest)"
  by (simp add: header_token_def split_on_separator split_on_first[of _ rest])

lemma header_token_Bearer:
  "CHR '' '' \<notin> set t \<Longrightarrow> header_token (Some (''Bearer '' @ t)) = Some t"
  using header_token_second_piece[of "''Bearer''" t] by (auto simp: takeWhile_eq_all_conv)

lemma authenticateToken_no_token:
  "header_token (authorization req) = None \<or> header_token (authorization req) = Some []
   \<Longrightarrow> authenticateToken env db req = Respond (error_response 401 ''Token nao fornecido'')"
  by (auto simp: authenticateToken_def)

lemma authenticateToken_token:
  "header_token (authorization req) = Some t \<Longrightarrow> t \<noteq> [] \<Longrightarrow>
     authenticateToken env db req =
       (case jwt_verify env t of
          Inl e \<Rightarrow> Respond (authenticate_catch e)
        | Inr decoded \<Rightarrow>
            (case select_by_id env db (decoded_userId decoded) of
               Inl e \<Rightarrow> Respond (authenticate_catch e)
             | Inr None \<Rightarrow> Respond (error_response 401 ''Usuario nao encontrado'')
             | Inr (Some u) \<Rightarrow> Next (req\<lparr>user := Some (auth_row u)\<rparr>)))"
  by (simp add: authenticateToken_def)

lemma authenticateToken_absent:
  "authorization req = None \<Longrightarrow>
     authenticateToken env db req = Respond (error_response 401 ''Token nao fornecido'')"
  by (simp add: authenticateToken_no_token header_token_None)

lemma authenticateToken_Bearer:
  assumes "authorization req = Some (''Bearer '' @ t)" and "t \<noteq> []" and "CHR '' '' \<notin> set t"
  shows "authenticateToken env db req =
       (case jwt_verify env t of
          Inl e \<Rightarrow> Respond (authenticate_catch e)
        | Inr decoded \<Rightarrow>
            (case select_by_id env db (decoded_userId decoded) of
               Inl e \<Rightarrow> Respond (authenticate_catch e)
             | Inr None \<Rightarrow> Respond (error_response 401 ''Usuario nao encontrado'')
             | Inr (Some u) \<Rightarrow> Next (req\<lparr>user := Some (auth_row u)\<rparr>)))"
proof -
  from assms(1,3) have "header_token (authorization req) = Some t"
    using header_token_Bearer[of t] by simp
  from authenticateToken_token[OF this assms(2)] show ?thesis .
qed

lemma authenticateToken_unknown_subject:
  assumes "authorization req = Some (''Bearer '' @ t)" and "t \<noteq> []" and "CHR '' '' \<notin> set t"
    and "jwt_verify env t = Inr (Obj kvs)" and "get_prop kvs ''userId'' = Str uid"
    and "\<not> list_ex (\<lambda>r. id_col r = SqlText uid) db"
  shows "authenticateToken env db req = Respond (error_response 401 ''Usuario nao encontrado'')"
  using assms(4-6)
  by (simp add: authenticateToken_Bearer[OF assms(1-3)] select_by_id_Str find_None_no_row)

subsection \<open>Validation\<close>

lemma destructure_Inl:
  "destructure v = Inl e \<Longrightarrow> e = TypeError \<and> (v = Undefined \<or> v = Null)"
  by (cases v) simp_all

text \<open>
  The two checks that register and admin create make before they hash.
\<close>

lemma register_missing:
  "destructure (body req) = Inr props \<Longrightarrow>
   \<not> truthy (get_prop props ''username'') \<or> \<not> truthy (get_prop props ''password'')
     \<or> \<not> truthy (get_prop props ''email'')
   \<Longrightarrow> register env db req = (missing_fields_response, db)"
  by (simp add: register_def Let_def)

lemma register_short:
  "destructure (body req) = Inr props \<Longrightarrow>
   get_prop props ''password'' = Str s \<Longrightarrow> length s < 8
   \<Longrightarrow> register env db req = (missing_fields_response, db)
       \<or> register env db req = (weak_password_response, db)"
  by (simp add: register_def Let_def)

lemma create_missing:
  "destructure (body req) = Inr props \<Longrightarrow>
   \<not> truthy (get_prop props ''username'') \<or> \<not> truthy (get_prop props ''password'')
     \<or> \<not> truthy (get_prop props ''email'')
   \<Longrightarrow> create_user env db req = (missing_fields_response, db)"
  by (simp add: create_user_def Let_def)

lemma create_short:
  "destructure (body req) = Inr props \<Longrightarrow>
   get_prop props ''password'' = Str s \<Longrightarrow> length s < 8
   \<Longrightarrow> create_user env db req = (missing_fields_response, db)
       \<or> create_user env db req = (weak_password_response, db)"
  by (simp add: create_user_def Let_def)

lemma invalid_body:
  assumes d: "destructure (body req) = Inr props"
    and a: "get_prop props ''username'' = Undefined \<or> get_prop props ''password'' = Undefined
     \<or> get_prop props ''email'' = Undefined
     \<or> (\<exists>s. get_prop props ''password'' = Str s \<and> length s < 8)"
  shows "register env db req = (missing_fields_response, db)
           \<or> register env db req = (weak_password_response, db)"
    and "create_user env db req = (missing_fields_response, db)
           \<or> create_user env db req = (weak_password_response, db)"
proof -
  from a consider
      "\<not> truthy (get_prop props ''username'') \<or> \<not> truthy (get_prop props ''password'')
         \<or> \<not> truthy (get_prop props ''email'')"
    | s where "get_prop props ''password'' = Str s" "length s < 8"
    by auto
  then show "register env db req = (missing_fields_response, db)
           \<or> register env db req = (weak_password_response, db)"
    by cases (simp_all add: register_missing[OF d] register_short[OF d])
  from a consider
      "\<not> truthy (get_prop props ''username'') \<or> \<not> truthy (get_prop props ''password'')
         \<or> \<not> truthy (get_prop props ''email'')"
    | s where "get_prop props ''password'' = Str s" "length s < 8"
    by auto
  then show "create_user env db req = (missing_fields_response, db)
           \<or> create_user env db req = (weak_password_response, db)"
    by cases (simp_all add: create_missing[OF d] create_short[OF d])
qed

text \<open>
  For a body whose properties can be read: a missing field or a password string shorter
  than 8 is answered 400 by both handlers, and nothing is written; the route of admin
  create writes nothing either, whatever its middleware answers.
\<close>

lemma invalid_fields_rejected:
  assumes d: "destructure (body req) = Inr props"
    and a: "get_prop props ''username'' = Undefined \<or> get_prop props ''password'' = Undefined
     \<or> get_prop props ''email'' = Undefined
     \<or> (\<exists>s. get_prop props ''password'' = Str s \<and> length s < 8)"
  shows "status (fst (register env db req)) = 400 \<and> snd (register env db req) = db
       \<and> fst (register env db req) \<in> {missing_fields_response, weak_password_response}
       \<and> status (fst (create_user env db req)) = 400 \<and> snd (create_user env db req) = db
       \<and> fst (create_user env db req) \<in> {missing_fields_response, weak_password_response}
       \<and> snd (route_create_user env db req) = db"
proof -
  have st: "status missing_fields_response = 400" "status weak_password_response = 400"
    by (simp_all add: response_defs)
  from invalid_body(1)[OF d a, of env db] st
  have r: "status (fst (register env db req)) = 400 \<and> snd (register env db req) = db
       \<and> fst (register env db req) \<in> {missing_fields_response, weak_password_response}"
    by auto
  from invalid_body(2)[OF d a, of env db] st
  have c: "status (fst (create_user env db req)) = 400 \<and> snd (create_user env db req) = db
       \<and> fst (create_user env db req) \<in> {missing_fields_response, weak_password_response}"
    by auto
  obtain x db' where p: "protected env requireAdmin (create_user env db) db req = (x, db')"
    by (cases "protected env requireAdmin (create_user env db) db req")
  from protected_request[OF p requireAdmin_same] have "db' = db"
  proof
    assume "db' = db" then show ?thesis .
  next
    assume "\<exists>u. create_user env db (req\<lparr>user := Some u\<rparr>) = (x, db')"
    then obtain u where u: "create_user env db (req\<lparr>user := Some u\<rparr>) = (x, db')" by blast
    from d have "destructure (body (req\<lparr>user := Some u\<rparr>)) = Inr props" by simp
    from invalid_body(2)[OF this a, of env db] u show ?thesis
      by auto
  qed
  with p have "snd (route_create_user env db req) = db"
    by (simp add: route_create_user_def)
  with r c show ?thesis by simp
qed

text \<open>
  Without a body to read the properties from, the pattern throws inside the \<open>try\<close>
  and the \<open>catch\<close> answers.
\<close>

lemma register_no_body:
  "destructure (body req) = Inl e
   \<Longrightarrow> register env db req = (error_response 500 ''Erro ao registrar usuario'', db)"
  using destructure_Inl[of "body req" e] by (auto simp: register_def register_catch_def)

lemma create_no_body:
  "destructure (body req) = Inl e
   \<Longrightarrow> create_user env db req = (error_response 500 ''Erro ao criar usuario'', db)"
  using destructure_Inl[of "body req" e] by (auto simp: create_user_def create_catch_def)

subsection \<open>Inserted rows\<close>

text \<open>
  The row an \<open>INSERT\<close> of the two handlers adds: the id comes first and, for register, the 0 of \<open>is_admin\<close> last, whatever the driver makes of the three values between them.
\<close>

lemma length3: "length xs = 3 \<Longrightarrow> \<exists>a b c. xs = [a, b, c]"
  by (auto simp: numeral_3_eq_3 length_Suc_conv)

lemma bind_params_register:
  assumes "bind_params n [Str i, u, Str h, e, Num 0] = Inr vs" and "n = 5"
  shows "\<exists>a b c. vs = [SqlText i, a, b, c, SqlNum 0]"
proof -
  from assms obtain us es where
    vs: "vs = SqlText i # (us @ SqlText h # es) @ [SqlNum 0]" and len: "length vs = 5"
    by (auto simp: bind_params_def split: option.splits if_splits)
  from vs len have "length (us @ SqlText h # es) = 3" by simp
  then obtain a b c where "us @ SqlText h # es = [a, b, c]" using length3 by blast
  with vs show ?thesis by simp
qed

lemma bind_params_create:
  assumes "bind_params n [Str i, u, Str h, e] = Inr vs" and "n = 4"
  shows "\<exists>a b c. vs = [SqlText i, a, b, c]"
proof -
  from assms obtain us es where
    vs: "vs = SqlText i # (us @ SqlText h # es)" and len: "length vs = 4"
    by (auto simp: bind_params_def split: option.splits if_splits)
  from vs len have "length (us @ SqlText h # es) = 3" by simp
  then obtain a b c where "us @ SqlText h # es = [a, b, c]" using length3 by blast
  with vs show ?thesis by simp
qed

lemma sql_insert_register:
  assumes "sql_insert env db [Col_id, Col_username, Col_password_hash, Col_email, Col_is_admin]
             [Str i, u, Str h, e, Num 0] = Inr db'"
  shows "\<exists>a b c. db' = db @ [new_row env i a b c]"
proof -
  from assms obtain vs where
    b: "bind_params (length [Col_id, Col_username, Col_password_hash, Col_email, Col_is_admin])
          [Str i, u, Str h, e, Num 0] = Inr vs"
    unfolding sql_insert_def by (auto split: sum.splits)
  then obtain a b c where vs: "vs = [SqlText i, a, b, c, SqlNum 0]"
    using bind_params_register by fastforce
  from assms b vs show ?thesis
    unfolding sql_insert_def
    by (auto simp: Let_def default_row_def new_row_def split: if_splits)
qed

lemma sql_insert_create:
  assumes "sql_insert env db [Col_id, Col_username, Col_password_hash, Col_email]
             [Str i, u, Str h, e] = Inr db'"
  shows "\<exists>a b c. db' = db @ [new_row env i a b c]"
proof -
  from assms obtain vs where
    b: "bind_params (length [Col_id, Col_username, Col_password_hash, Col_email])
          [Str i, u, Str h, e] = Inr vs"
    unfolding sql_insert_def by (auto split: sum.splits)
  then obtain a b c where vs: "vs = [SqlText i, a, b, c]"
    using bind_params_create by fastforce
  from assms b vs show ?thesis
    unfolding sql_insert_def
    by (auto simp: Let_def default_row_def new_row_def is_admin_default_def
        split: if_splits)
qed

lemma register_cases:
  assumes "register env db req = (r, db')"
  shows "(db' = db \<and> (status r = 400 \<or> status r = 500))
       \<or> (\<exists>a b c. db' = db @ [new_row env (uuidv4 env) a b c]
            \<and> (status r = 500
               \<or> (\<exists>token uname mail. r = json_response 201
                     (Obj [(''message'', Str ''Usuario criado com sucesso''),
                           (''token'', Str token),
                           (''user'',
                            Obj [(''id'', Str (uuidv4 env)),
                                 (''username'', uname),
                                 (''email'', mail),
                                 (''is_admin'', Bool False)])]))))"
  using assms
  by (auto simp: register_def Let_def response_defs
      split: if_splits sum.splits option.splits dest!: sql_insert_register)

lemma bind_params_strings5:
  "bind_params n [Str i, Str u, Str h, Str e, Num 0] =
     (if n = 5 then Inr [SqlText i, SqlText u, SqlText h, SqlText e, SqlNum 0] else Inl RangeError)"
  by (simp add: bind_params_def)

lemma bind_params_strings4:
  "bind_params n [Str i, Str u, Str h, Str e] =
     (if n = 4 then Inr [SqlText i, SqlText u, SqlText h, SqlText e] else Inl RangeError)"
  by (simp add: bind_params_def)

lemma sql_insert_strings5:
  "sql_insert env db [Col_id, Col_username, Col_password_hash, Col_email, Col_is_admin]
     [Str i, Str u, Str h, Str e, Num 0] =
   (if list_ex (\<lambda>x. id_col x = SqlText i) db then Inl (SqliteError SQLITE_CONSTRAINT_PRIMARYKEY)
    else if list_ex (\<lambda>x. email x = SqlText e) db then Inl (SqliteError SQLITE_CONSTRAINT_UNIQUE)
    else Inr (db @ [new_row env i (SqlText u) (SqlText h) (SqlText e)]))"
  by (simp add: sql_insert_def bind_params_strings5 default_row_def not_null_ok_def new_row_def
      sql_eq_text Let_def)

lemma sql_insert_strings4:
  "sql_insert env db [Col_id, Col_username, Col_password_hash, Col_email]
     [Str i, Str u, Str h, Str e] =
   (if list_ex (\<lambda>x. id_col x = SqlText i) db then Inl (SqliteError SQLITE_CONSTRAINT_PRIMARYKEY)
    else if list_ex (\<lambda>x. email x = SqlText e) db then Inl (SqliteError SQLITE_CONSTRAINT_UNIQUE)
    else Inr (db @ [new_row env i (SqlText u) (SqlText h) (SqlText e)]))"
  by (simp add: sql_insert_def bind_params_strings4 default_row_def not_null_ok_def new_row_def
      sql_eq_text Let_def is_admin_default_def)

lemma register_strings:
  assumes "destructure (body req) = Inr props"
    and "get_prop props ''username'' = Str u" and "u \<noteq> []"
    and "get_prop props ''password'' = Str p" and "8 \<le> length p"
    and "get_prop props ''email'' = Str e" and "e \<noteq> []"
  shows "register env db req =
     (case sql_insert env db [Col_id, Col_username, Col_password_hash, Col_email, Col_is_admin]
             [Str (uuidv4 env), Str u, Str (bcrypt_hash env p), Str e, Num 0] of
        Inl err \<Rightarrow> (register_catch err, db)
      | Inr db' \<Rightarrow>
          (case jwt_sign env
                  (Obj [(''userId'', Str (uuidv4 env)), (''username'', Str u),
                        (''email'', Str e), (''is_admin'', Bool False)]) of
             None \<Rightarrow> (register_catch Error, db')
           | Some token \<Rightarrow>
               (json_response 201
                  (Obj [(''message'', Str ''Usuario criado com sucesso''),
                        (''token'', Str token),
                        (''user'',
                         Obj [(''id'', Str (uuidv4 env)), (''username'', Str u),
                              (''email'', Str e), (''is_admin'', Bool False)])]),
                db')))"
  using assms by (auto simp: register_def Let_def bcrypt_hash_js_def)

lemma create_strings:
  assumes "destructure (body req) = Inr props"
    and "get_prop props ''username'' = Str u" and "u \<noteq> []"
    and "get_prop props ''password'' = Str p" and "8 \<le> length p"
    and "get_prop props ''email'' = Str e" and "e \<noteq> []"
  shows "create_user env db req =
     (case sql_insert env db [Col_id, Col_username, Col_password_hash, Col_email]
             [Str (uuidv4 env), Str u, Str (bcrypt_hash env p), Str e] of
        Inl err \<Rightarrow> (create_catch err, db)
      | Inr db' \<Rightarrow>
          (case select_by_id env db' (Str (uuidv4 env)) of
             Inl err \<Rightarrow> (create_catch err, db')
           | Inr None \<Rightarrow> (create_catch TypeError, db')
           | Inr (Some newUser) \<Rightarrow> (json_response 201 (without_password newUser), db')))"
  using assms by (auto simp: create_user_def Let_def bcrypt_hash_js_def)

lemma register_duplicate_email:
  assumes "destructure (body req) = Inr props"
    and "get_prop props ''username'' = Str u" and "u \<noteq> []"
    and "get_prop props ''password'' = Str p" and "8 \<le> length p"
    and "get_prop props ''email'' = Str e" and "e \<noteq> []"
    and "list_ex (\<lambda>x. email x = SqlText e) db"
  shows "register env db req = (constraint_response, db)"
  using assms(8)
  by (simp add: register_strings[OF assms(1-7)] sql_insert_strings5 register_catch_def)

lemma create_duplicate_email:
  assumes "destructure (body req) = Inr props"
    and "get_prop props ''username'' = Str u" and "u \<noteq> []"
    and "get_prop props ''password'' = Str p" and "8 \<le> length p"
    and "get_prop props ''email'' = Str e" and "e \<noteq> []"
    and "list_ex (\<lambda>x. email x = SqlText e) db"
  shows "create_user env db req = (constraint_response, db)"
  using assms(8)
  by (simp add: create_strings[OF assms(1-7)] sql_insert_strings4 create_catch_def)

lemma register_fresh:
  assumes "destructure (body req) = Inr props"
    and "get_prop props ''username'' = Str u" and "u \<noteq> []"
    and "get_prop props ''password'' = Str p" and "8 \<le> length p"
    and "get_prop props ''email'' = Str e" and "e \<noteq> []"
    and "\<not> list_ex (\<lambda>x. email x = SqlText e) db"
    and "\<not> list_ex (\<lambda>x. id_col x = SqlText (uuidv4 env)) db"
    and "jwt_sign env (Obj [(''userId'', Str (uuidv4 env)), (''username'', Str u),
                        (''email'', Str e), (''is_admin'', Bool False)]) = Some token"
  shows "status (fst (register env db req)) = 201
       \<and> snd (register env db req) =
           db @ [new_row env (uuidv4 env) (SqlText u) (SqlText (bcrypt_hash env p)) (SqlText e)]"
  using assms(8-10)
  by (simp add: register_strings[OF assms(1-7)] sql_insert_strings5 json_response_def)

lemma create_fresh:
  assumes "destructure (body req) = Inr props"
    and "get_prop props ''username'' = Str u" and "u \<noteq> []"
    and "get_prop props ''password'' = Str p" and "8 \<le> length p"
    and "get_prop props ''email'' = Str e" and "e \<noteq> []"
    and "\<not> list_ex (\<lambda>x. email x = SqlText e) db"
    and "\<not> list_ex (\<lambda>x. id_col x = SqlText (uuidv4 env)) db"
  shows "status (fst (create_user env db req)) = 201
       \<and> snd (create_user env db req) =
           db @ [new_row env (uuidv4 env) (SqlText u) (SqlText (bcrypt_hash env p)) (SqlText e)]"
  using assms(8-9)
  by (simp add: create_strings[OF assms(1-7)] sql_insert_strings4 json_response_def
      select_by_id_Str find_new_row)

subsection \<open>User objects\<close>

text \<open>
  The payloads of the successful responses.
\<close>

lemma lacks_password_hash_without_password: "lacks_password_hash (without_password r)"
  by (simp add: without_password_def omit_def row_object_def)

lemma login_user_object:
  "status (login env db req) = 200 \<Longrightarrow> lacks_password_hash (payload_user (login env db req))"
  by (auto simp: login_def Let_def response_defs payload_user_def get_prop_def
      split: if_splits sum.splits option.splits)

lemma register_user_object:
  "status (fst (register env db req)) = 201
   \<Longrightarrow> lacks_password_hash (payload_user (fst (register env db req)))"
  using register_cases[of env db req "fst (register env db req)" "snd (register env db req)"]
  by (auto simp: payload_user_def get_prop_def response_defs)

lemma list_users_objects:
  "payload (list_users db) = Some (Arr (map without_password db))
   \<and> list_all lacks_password_hash (map without_password db)"
  by (simp add: list_users_def json_response_def list_all_iff lacks_password_hash_without_password)

lemma get_user_object:
  "status (get_user env db req) = 200
   \<Longrightarrow> \<exists>u. payload (get_user env db req) = Some (without_password u)"
  by (auto simp: get_user_def response_defs split: sum.splits option.splits)

lemma create_user_object:
  "create_user env db req = (r, db') \<Longrightarrow> status r = 201
   \<Longrightarrow> \<exists>u. payload r = Some (without_password u)"
  by (auto simp: create_user_def Let_def response_defs split: if_splits sum.splits option.splits)

lemma update_user_object:
  "update_user env db req = (r, db') \<Longrightarrow> status r = 200
   \<Longrightarrow> \<exists>u. payload r = Some (without_password u)"
  by (auto simp: update_user_def Let_def response_defs
      split: if_splits sum.splits option.splits prod.splits)

lemma route_list_users_object:
  assumes "status (fst (route_list_users env db req)) = 200"
  shows "\<exists>us. payload (fst (route_list_users env db req)) = Some (Arr us)
           \<and> list_all lacks_password_hash us"
proof -
  obtain r db' where eq: "route_list_users env db req = (r, db')" by (cases "route_list_users env db req")
  then have "protected env requireAdmin (\<lambda>q. (list_users db, db)) db req = (r, db')"
    by (simp add: route_list_users_def)
  from protected_cases[OF this requireAdmin_denies] assms eq
  have "r = list_users db" by auto
  with eq list_users_objects[of db] show ?thesis by auto
qed

lemma route_get_user_object:
  assumes "status (fst (route_get_user env db req)) = 200"
  shows "\<exists>u. payload (fst (route_get_user env db req)) = Some u \<and> lacks_password_hash u"
proof -
  obtain r db' where eq: "route_get_user env db req = (r, db')" by (cases "route_get_user env db req")
  then have "protected env requireAdminOrOwner (\<lambda>q. (get_user env db q, db)) db req = (r, db')"
    by (simp add: route_get_user_def)
  from protected_cases[OF this requireAdminOrOwner_denies] assms eq
  obtain q where "r = get_user env db q" by auto
  with eq assms get_user_object[of env db q] show ?thesis
    by (auto simp: lacks_password_hash_without_password)
qed

lemma route_create_user_object:
  assumes "status (fst (route_create_user env db req)) = 201"
  shows "\<exists>u. payload (fst (route_create_user env db req)) = Some u \<and> lacks_password_hash u"
proof -
  obtain r db' where eq: "route_create_user env db req = (r, db')"
    by (cases "route_create_user env db req")
  then have "protected env requireAdmin (create_user env db) db req = (r, db')"
    by (simp add: route_create_user_def)
  from protected_cases[OF this requireAdmin_denies] assms eq
  obtain q where "create_user env db q = (r, db')" by auto
  with eq assms create_user_object[of env db q r db'] show ?thesis
    by (auto simp: lacks_password_hash_without_password)
qed

lemma route_update_user_object:
  assumes "status (fst (route_update_user env db req)) = 200"
  shows "\<exists>u. payload (fst (route_update_user env db req)) = Some u \<and> lacks_password_hash u"
proof -
  obtain r db' where eq: "route_update_user env db req = (r, db')"
    by (cases "route_update_user env db req")
  then have "protected env requireAdminOrOwner (update_user env db) db req = (r, db')"
    by (simp add: route_update_user_def)
  from protected_cases[OF this requireAdminOrOwner_denies] assms eq
  obtain q where "update_user env db q = (r, db')" by auto
  with eq assms update_user_object[of env db q r db'] show ?thesis
    by (auto simp: lacks_password_hash_without_password)
qed

subsection \<open>Updates\<close>

text \<open>
  An \<open>UPDATE\<close> changes the staged columns of the rows with the id of the request, and nothing else.
\<close>

lemma set_column_other:
  "c \<noteq> fst p \<Longrightarrow> column_value c (set_column env p r) = column_value c r"
  by (cases p; cases "fst p"; cases c) auto

lemma fold_set_column_other:
  "c \<notin> fst ` set ps \<Longrightarrow> column_value c (fold (set_column env) ps r) = column_value c r"
  by (induction ps arbitrary: r) (auto simp: set_column_other)

lemma zip_columns_other:
  "c \<notin> set cols \<Longrightarrow> column_value c (fold (set_column env) (zip cols vs) r) = column_value c r"
  by (rule fold_set_column_other) (auto dest: set_zip_leftD)

lemma sql_update_shape:
  assumes "sql_update env db cols args = Inr db'"
  shows "\<exists>vs k. db' = map (\<lambda>r. if sql_eq (id_col r) k
                                  then fold (set_column env) (zip cols vs) r else r) db"
  using assms
  by (auto simp: sql_update_def Let_def split: sum.splits list.splits if_splits)

lemma sql_update_other_column:
  assumes "sql_update env db cols args = Inr db'" and "c \<notin> set cols"
  shows "map (column_value c) db' = map (column_value c) db"
proof -
  from sql_update_shape[OF assms(1)] obtain vs k where
    "db' = map (\<lambda>r. if sql_eq (id_col r) k
                     then fold (set_column env) (zip cols vs) r else r) db"
    by blast
  then show ?thesis
    using assms(2) by (simp add: zip_columns_other)
qed

lemma stage_updates_columns:
  assumes "stage_updates env props = Inr (cols, vals)"
  shows "set cols \<subseteq> {Col_username, Col_password_hash, Col_email}"
    and "get_prop props ''username'' = Undefined \<Longrightarrow> Col_username \<notin> set cols"
    and "get_prop props ''password'' = Undefined \<Longrightarrow> Col_password_hash \<notin> set cols"
    and "get_prop props ''email'' = Undefined \<Longrightarrow> Col_email \<notin> set cols"
    and "length vals = length cols"
  using assms
  by (auto simp: stage_updates_def Let_def split: if_splits sum.splits)



lemma update_user_cases:
  assumes "update_user env db req = (r, db')"
  shows "db' = db
       \<or> (\<exists>props cols vals. destructure (body req) = Inr props
            \<and> stage_updates env props = Inr (cols, vals)
            \<and> sql_update env db cols (vals @ [Str (params_id req)]) = Inr db')"
  using assms
  by (auto simp: update_user_def Let_def split: sum.splits option.splits if_splits prod.splits)

lemma those_append:
  "those (xs @ ys) = (case those xs of None \<Rightarrow> None | Some a \<Rightarrow> map_option ((@) a) (those ys))"
proof (induction xs)
  case Nil
  show ?case by (cases "those ys") simp_all
next
  case (Cons x xs)
  then show ?case by (cases "those ys") (auto split: option.splits)
qed

lemma bind_params_key:
  assumes "bind_params (Suc n) (vals @ [Str i]) = Inr vs"
  shows "\<exists>ws. vs = ws @ [SqlText i] \<and> length ws = n"
  using assms
  by (auto simp: bind_params_def those_append split: option.splits if_splits)

lemma zip_key: "length ws = length cols \<Longrightarrow> zip cols (ws @ [k]) = zip cols ws"
  by (induction cols arbitrary: ws) (auto simp: length_Suc_conv)



lemma update_user_frame:
  assumes "update_user env db req = (r, db')"
  shows "map id_col db' = map id_col db \<and> map is_admin db' = map is_admin db
       \<and> map created_at db' = map created_at db"
proof -
  from update_user_cases[OF assms] consider "db' = db"
    | props cols vals where "stage_updates env props = Inr (cols, vals)"
        "sql_update env db cols (vals @ [Str (params_id req)]) = Inr db'"
    by blast
  then show ?thesis
  proof cases
    case 1
    then show ?thesis by simp
  next
    case 2
    from stage_updates_columns(1)[OF 2(1)]
    have "Col_id \<notin> set cols" "Col_is_admin \<notin> set cols" "Col_created_at \<notin> set cols"
      by auto
    from this[THEN sql_update_other_column[OF 2(2)]] show ?thesis
      by (simp add: column_value.simps[abs_def])
  qed
qed












lemma update_user_no_body:
  assumes "select_by_id env db (Str (params_id req)) = Inr (Some u)"
    and "destructure (body req) = Inl e"
  shows "update_user env db req = (error_response 500 ''Erro ao atualizar usuario'', db)"
  using assms destructure_Inl[OF assms(2)] by (simp add: update_user_def update_catch_def)


text \<open>
  The driver spreads an array over the \<open>?\<close> that follow, so the value that reaches a
  staged column need not be the value staged for it: here the text bound to
  \<open>password_hash\<close> comes from the array given as \<open>email\<close>. The columns that
  change are still the staged ones.
\<close>

lemma array_values_shift_columns:
  "snd (update_user demo_env demo_db
          (demo_request\<lparr>body := Obj [(''username'', Arr []), (''password'', Str ''password3''),
                                      (''email'', Arr [Str ''raw'', Str ''c@x.com''])]\<rparr>))
     = [root_row,
        alice_row\<lparr>username := SqlText ''$2b$10$password3'', password_hash := SqlText ''raw'',
                    email := SqlText ''c@x.com''\<rparr>]"
  by (simp add: update_user_def stage_updates_def select_by_id_Str sql_eq_text get_prop_def
      bcrypt_hash_js_def sql_update_def bind_params_def Let_def not_null_ok_def
      demo_env_def demo_db_def demo_request_def root_row_def alice_row_def)

subsection \<open>Deletion\<close>

lemma delete_user_cases:
  "delete_user env db req = (r, db') \<Longrightarrow> status r = 204 \<Longrightarrow>
     db' = filter (\<lambda>r. \<not> sql_eq (id_col r) (SqlText (params_id req))) db"
  by (auto simp: delete_user_def Let_def select_by_id_Str sql_delete_Str response_defs
      split: option.splits)

lemma delete_user_found:
  assumes "select_by_id env db (Str (params_id req)) = Inr (Some victim)"
  shows "delete_user env db req
           = (\<lparr>status = 204, payload = None\<rparr>,
              filter (\<lambda>r. \<not> sql_eq (id_col r) (SqlText (params_id req))) db)"
  using assms by (simp add: delete_user_def sql_delete_Str)

lemma deleted_email_is_free:
  assumes "distinct (map email db)"
    and "find (\<lambda>r. sql_eq (id_col r) (SqlText i)) db = Some victim"
  shows "\<not> list_ex (\<lambda>x. email x = email victim)
            (filter (\<lambda>r. \<not> sql_eq (id_col r) (SqlText i)) db)"
proof
  assume "list_ex (\<lambda>x. email x = email victim) (filter (\<lambda>r. \<not> sql_eq (id_col r) (SqlText i)) db)"
  then obtain x where x: "x \<in> set db" "\<not> sql_eq (id_col x) (SqlText i)" "email x = email victim"
    by (auto simp: list_ex_iff)
  from assms(2) have v: "victim \<in> set db" "sql_eq (id_col victim) (SqlText i)"
    by (auto simp: find_Some_iff)
  from assms(1) x(1) v(1) x(3) have "x = victim"
    by (auto simp: distinct_map dest: inj_onD)
  with x(2) v(2) show False by simp
qed

subsection \<open>Login\<close>

lemma login_unknown_email:
  assumes "truthy (get_prop props ''email'')" and "truthy (get_prop props ''password'')"
    and "select_by_email env db (get_prop props ''email'') = Inr None"
    and "destructure (body req) = Inr props"
  shows "login env db req = invalid_credentials_response"
  using assms by (simp add: login_def Let_def)

lemma login_wrong_password:
  assumes "truthy (get_prop props ''email'')" and "truthy (get_prop props ''password'')"
    and "select_by_email env db (get_prop props ''email'') = Inr (Some u)"
    and "bcrypt_compare_js env (get_prop props ''password'') (js_of_sql (password_hash u))
           = Inr False"
    and "destructure (body req) = Inr props"
  shows "login env db req = invalid_credentials_response"
  using assms by (simp add: login_def Let_def)

lemma login_rejected_hash_same_response:
  assumes "destructure (body req1) = Inr props1"
    and "truthy (get_prop props1 ''email'')" and "truthy (get_prop props1 ''password'')"
    and "select_by_email env db (get_prop props1 ''email'') = Inr None"
    and "destructure (body req2) = Inr props2"
    and "truthy (get_prop props2 ''email'')" and "truthy (get_prop props2 ''password'')"
    and "select_by_email env db (get_prop props2 ''email'') = Inr (Some u)"
    and "bcrypt_compare_js env (get_prop props2 ''password'') (js_of_sql (password_hash u))
           = Inr False"
  shows "login env db req1 = login env db req2
       \<and> login env db req1 = error_response 401 ''Credenciais invalidas''
       \<and> status (login env db req1) = 401 \<and> status (login env db req2) = 401"
  using login_unknown_email[OF assms(2-4) assms(1)] login_wrong_password[OF assms(6-9) assms(5)]
  by (simp add: invalid_credentials_response_def error_response_def json_response_def)

lemma login_compare_throws:
  assumes "truthy (get_prop props ''email'')" and "truthy (get_prop props ''password'')"
    and "select_by_email env db (get_prop props ''email'') = Inr (Some u)"
    and "bcrypt_compare_js env (get_prop props ''password'') (js_of_sql (password_hash u)) = Inl e"
    and "destructure (body req) = Inr props"
  shows "login env db req = error_response 500 ''Erro ao fazer login''"
  using assms by (simp add: login_def Let_def login_catch_def)

lemma bcrypt_compare_js_not_string:
  "\<forall>s. data \<noteq> Str s \<Longrightarrow> bcrypt_compare_js env data hash = Inl Error"
  by (cases data) (simp_all add: bcrypt_compare_js_def)

subsection \<open>The constraints of the table\<close>

text \<open>
  The four writing handlers keep ids and emails distinct.
\<close>

lemma sql_insert_checked:
  assumes "sql_insert env db cols args = Inr db'"
  shows "\<exists>r. db' = db @ [r] \<and> email r \<noteq> SqlNull
           \<and> \<not> list_ex (\<lambda>x. sql_eq (id_col x) (id_col r)) db
           \<and> \<not> list_ex (\<lambda>x. sql_eq (email x) (email r)) db"
  using assms
  by (auto simp: sql_insert_def Let_def not_null_ok_def split: sum.splits if_splits)

lemma constraints_hold_insert:
  assumes "constraints_hold db" and "sql_insert env db cols args = Inr db'"
    and "\<forall>r. db' = db @ [r] \<longrightarrow> id_col r \<noteq> SqlNull"
  shows "constraints_hold db'"
proof -
  from sql_insert_checked[OF assms(2)] obtain r where r: "db' = db @ [r]" "email r \<noteq> SqlNull"
    "\<not> list_ex (\<lambda>x. sql_eq (id_col x) (id_col r)) db"
    "\<not> list_ex (\<lambda>x. sql_eq (email x) (email r)) db"
    by blast
  with assms(3) have "id_col r \<noteq> SqlNull" by simp
  with r assms(1) show ?thesis
    by (auto simp: constraints_hold_def list_ex_iff sql_eq_def)
qed

lemma constraints_hold_register:
  assumes "constraints_hold db"
  shows "constraints_hold (snd (register env db req))"
proof -
  obtain r db' where e: "register env db req = (r, db')" by (cases "register env db req")
  have "constraints_hold db'"
  proof (cases "db' = db")
    case True
    with assms show ?thesis by simp
  next
    case False
    with e obtain u h m where
      i: "sql_insert env db [Col_id, Col_username, Col_password_hash, Col_email, Col_is_admin]
            [Str (uuidv4 env), u, Str h, m, Num 0] = Inr db'"
      by (auto simp: register_def Let_def split: if_splits sum.splits option.splits)
    from sql_insert_register[OF i] have "\<forall>r. db' = db @ [r] \<longrightarrow> id_col r \<noteq> SqlNull"
      by (auto simp: new_row_def)
    from constraints_hold_insert[OF assms i this] show ?thesis .
  qed
  with e show ?thesis by simp
qed

lemma constraints_hold_create:
  assumes "constraints_hold db"
  shows "constraints_hold (snd (create_user env db req))"
proof -
  obtain r db' where e: "create_user env db req = (r, db')" by (cases "create_user env db req")
  have "constraints_hold db'"
  proof (cases "db' = db")
    case True
    with assms show ?thesis by simp
  next
    case False
    with e obtain u h m where
      i: "sql_insert env db [Col_id, Col_username, Col_password_hash, Col_email]
            [Str (uuidv4 env), u, Str h, m] = Inr db'"
      by (auto simp: create_user_def Let_def split: if_splits sum.splits option.splits)
    from sql_insert_create[OF i] have "\<forall>r. db' = db @ [r] \<longrightarrow> id_col r \<noteq> SqlNull"
      by (auto simp: new_row_def)
    from constraints_hold_insert[OF assms i this] show ?thesis .
  qed
  with e show ?thesis by simp
qed

lemma constraints_hold_delete:
  assumes "constraints_hold db"
  shows "constraints_hold (snd (delete_user env db req))"
  using assms
  by (auto simp: delete_user_def Let_def select_by_id_Str sql_delete_Str constraints_hold_def
      distinct_map_filter split: option.splits)

lemma distinct_map_update_one:
  assumes "distinct (map f xs)" and "distinct (map k xs)"
    and "\<forall>x \<in> set xs. \<forall>y \<in> set xs. hit x \<and> \<not> hit y \<longrightarrow> f (g x) \<noteq> f y"
    and "\<forall>x \<in> set xs. \<forall>y \<in> set xs. hit x \<and> hit y \<longrightarrow> k x = k y"
  shows "distinct (map f (map (\<lambda>x. if hit x then g x else x) xs))"
  using assms
proof (induction xs)
  case Nil
  then show ?case by simp
next
  case (Cons z zs)
  let ?u = "\<lambda>x. if hit x then g x else x"
  have p1: "distinct (map f zs)" and a1: "f z \<notin> f ` set zs"
    using Cons.prems(1) by simp_all
  have p2: "distinct (map k zs)" and a2: "k z \<notin> k ` set zs"
    using Cons.prems(2) by simp_all
  have p3: "\<forall>x \<in> set zs. \<forall>y \<in> set zs. hit x \<and> \<not> hit y \<longrightarrow> f (g x) \<noteq> f y"
    using Cons.prems(3) by (meson list.set_intros(2))
  have p4: "\<forall>x \<in> set zs. \<forall>y \<in> set zs. hit x \<and> hit y \<longrightarrow> k x = k y"
    using Cons.prems(4) by (meson list.set_intros(2))
  have IH: "distinct (map f (map ?u zs))"
    by (rule Cons.IH[OF p1 p2 p3 p4])
  have new: "\<forall>y \<in> set zs. f (?u z) \<noteq> f (?u y)"
  proof
    fix y
    assume y: "y \<in> set zs"
    from a2 y have ky: "k z \<noteq> k y" by blast
    from a1 y have fy: "f z \<noteq> f y" by blast
    have both: "\<not> (hit z \<and> hit y)"
      using Cons.prems(4) ky y by (meson list.set_intros(1) list.set_intros(2))
    have zy: "hit z \<and> \<not> hit y \<longrightarrow> f (g z) \<noteq> f y"
      using Cons.prems(3) y by (meson list.set_intros(1) list.set_intros(2))
    have yz: "hit y \<and> \<not> hit z \<longrightarrow> f (g y) \<noteq> f z"
      using Cons.prems(3) y by (meson list.set_intros(1) list.set_intros(2))
    show "f (?u z) \<noteq> f (?u y)"
    proof (cases "hit z")
      case True
      with both have "\<not> hit y" by simp
      with True zy show ?thesis by simp
    next
      case False
      show ?thesis
      proof (cases "hit y")
        case True
        with False yz have "f (g y) \<noteq> f z" by simp
        with True False show ?thesis by (simp add: eq_commute)
      next
        case n: False
        with False fy show ?thesis by simp
      qed
    qed
  qed
  have "f (?u z) \<notin> set (map f (map ?u zs))"
  proof
    assume "f (?u z) \<in> set (map f (map ?u zs))"
    then obtain y where "y \<in> set zs" "f (?u z) = f (?u y)"
      by (auto simp: image_iff)
    with new show False by blast
  qed
  with IH show ?case by simp
qed

lemma sql_update_checked:
  assumes "sql_update env db cols (vals @ [Str i]) = Inr db'"
  shows "\<exists>ws. db' = map (\<lambda>r. if sql_eq (id_col r) (SqlText i)
                               then fold (set_column env) (zip cols ws) r else r) db
           \<and> (\<forall>x \<in> set db. \<forall>y \<in> set db.
                  sql_eq (id_col x) (SqlText i) \<and> \<not> sql_eq (id_col y) (SqlText i)
                  \<longrightarrow> email (fold (set_column env) (zip cols ws) x) \<noteq> email y)"
proof -
  from assms obtain vs where b: "bind_params (Suc (length cols)) (vals @ [Str i]) = Inr vs"
    by (auto simp: sql_update_def split: sum.splits)
  from bind_params_key[OF this] obtain ws where ws: "vs = ws @ [SqlText i]" "length ws = length cols"
    by blast
  let ?upd = "fold (set_column env) (zip cols ws)"
  let ?hit = "\<lambda>r. sql_eq (id_col r) (SqlText i)"
  from assms b ws have
    nn: "\<not> list_ex (\<lambda>r. \<not> not_null_ok r) (map ?upd (filter ?hit db))"
    and un: "\<not> list_ex (\<lambda>r. list_ex (\<lambda>x. sql_eq (email x) (email r)) (filter (\<lambda>r. \<not> ?hit r) db))
                 (map ?upd (filter ?hit db))"
    and d: "db' = map (\<lambda>r. if ?hit r then ?upd r else r) db"
    by (simp_all add: sql_update_def Let_def zip_key split: if_splits)
  have "email (?upd x) \<noteq> email y" if "x \<in> set db" "y \<in> set db" "?hit x" "\<not> ?hit y" for x y
  proof
    assume eq: "email (?upd x) = email y"
    from nn that(1,3) have "email (?upd x) \<noteq> SqlNull"
      by (auto simp: list_ex_iff not_null_ok_def)
    with eq have "sql_eq (email y) (email (?upd x))"
      by (simp add: sql_eq_def)
    with un that show False
      by (auto simp: list_ex_iff)
  qed
  with d show ?thesis by blast
qed

lemma constraints_hold_update:
  assumes "constraints_hold db"
  shows "constraints_hold (snd (update_user env db req))"
proof -
  obtain r db' where e: "update_user env db req = (r, db')" by (cases "update_user env db req")
  from update_user_frame[OF e] assms have ids: "distinct (map id_col db')"
    by (simp add: constraints_hold_def)
  from update_user_cases[OF e] consider "db' = db"
    | cols vals where "sql_update env db cols (vals @ [Str (params_id req)]) = Inr db'"
    by blast
  then have "distinct (map email db')"
  proof cases
    case 1
    with assms show ?thesis by (simp add: constraints_hold_def)
  next
    case 2
    from sql_update_checked[OF 2] obtain ws where
      d: "db' = map (\<lambda>r. if sql_eq (id_col r) (SqlText (params_id req))
                               then fold (set_column env) (zip cols ws) r else r) db"
      and c: "\<forall>x \<in> set db. \<forall>y \<in> set db.
                  sql_eq (id_col x) (SqlText (params_id req))
                  \<and> \<not> sql_eq (id_col y) (SqlText (params_id req))
                  \<longrightarrow> email (fold (set_column env) (zip cols ws) x) \<noteq> email y"
      by blast
    from assms have "distinct (map email db)" "distinct (map id_col db)"
      by (simp_all add: constraints_hold_def)
    from distinct_map_update_one[where g = "fold (set_column env) (zip cols ws)", OF this c] d
    show ?thesis by (simp add: sql_eq_text)
  qed
  with ids e show ?thesis by (simp add: constraints_hold_def)
qed

subsection \<open>Unfolding for evaluation\<close>

lemmas handler_defs = register_def login_def list_users_def get_user_def create_user_def
  update_user_def delete_user_def stage_updates_def protected_def route_list_users_def
  route_get_user_def route_create_user_def route_update_user_def route_delete_user_def
  authenticateToken_def header_token_def requireAdmin_def requireAdminOrOwner_def

lemmas store_defs = sql_insert_def sql_update_def sql_delete_def select_by_id_def
  select_by_email_def bind_params_def default_row_def not_null_ok_def sql_eq_def
  is_admin_default_def auth_row_def row_object_def without_password_def omit_def
  bcrypt_hash_js_def bcrypt_compare_js_def get_prop_def

lemmas demo_defs = demo_env_def demo_db_def demo_request_def root_row_def alice_row_def bob_body_def

lemmas eval_defs = handler_defs store_defs demo_defs response_defs Let_def new_row_def

section \<open>Authorization predicates\<close>

text \<open>
  C1. With a user attached to the request, \<open>requireAdmin\<close> passes exactly when the
  caller's \<open>is_admin\<close> is set (truthy) and otherwise answers 403;
  \<open>requireAdminOrOwner\<close> passes exactly when \<open>is_admin\<close> is set or the caller's id
  is the route parameter \<open>:id\<close>, and otherwise answers 403. With no user attached both
  answer 401 and do not call \<open>next()\<close>.
\<close>

theorem authorization_predicates:
  "requireAdmin (req\<lparr>user := Some u\<rparr>) =
     (if truthy (user_is_admin u) then Next (req\<lparr>user := Some u\<rparr>)
      else Respond (error_response 403 ''Acesso negado. Apenas administradores.''))
   \<and> requireAdminOrOwner (req\<lparr>user := Some u\<rparr>) =
     (if truthy (user_is_admin u) \<or> user_id u = Str (params_id req)
      then Next (req\<lparr>user := Some u\<rparr>)
      else Respond (error_response 403 ''Acesso negado''))
   \<and> status (error_response 403 ''Acesso negado. Apenas administradores.'') = 403
   \<and> status (error_response 403 ''Acesso negado'') = 403
   \<and> requireAdmin (req\<lparr>user := None\<rparr>) = Respond (error_response 401 ''Autenticacao necessaria'')
   \<and> requireAdminOrOwner (req\<lparr>user := None\<rparr>) = Respond (error_response 401 ''Autenticacao necessaria'')
   \<and> status (error_response 401 ''Autenticacao necessaria'') = 401"
proof -
  have eq: "strict_eq (user_id u) (Str (params_id req)) = (user_id u = Str (params_id req))"
    by (cases "user_id u") simp_all
  show ?thesis
    by (simp add: requireAdmin_def requireAdminOrOwner_def Let_def eq
        error_response_def json_response_def)
qed

section \<open>The user projection\<close>

text \<open>
  C2. On every successful answer of register (201), login (200), list (200), get by id
  (200), admin create (201) and update (200), the user object of the response, or every
  element of the array that list returns, has no \<open>password_hash\<close> property.
\<close>

theorem responses_omit_password_hash:
  "(status (fst (register env db req)) = 201 \<longrightarrow>
      lacks_password_hash (payload_user (fst (register env db req))))
   \<and> (status (login env db req) = 200 \<longrightarrow>
      lacks_password_hash (payload_user (login env db req)))
   \<and> (status (fst (route_list_users env db req)) = 200 \<longrightarrow>
      (\<exists>us. payload (fst (route_list_users env db req)) = Some (Arr us)
            \<and> list_all lacks_password_hash us))
   \<and> (status (fst (route_get_user env db req)) = 200 \<longrightarrow>
      (\<exists>u. payload (fst (route_get_user env db req)) = Some u \<and> lacks_password_hash u))
   \<and> (status (fst (route_create_user env db req)) = 201 \<longrightarrow>
      (\<exists>u. payload (fst (route_create_user env db req)) = Some u \<and> lacks_password_hash u))
   \<and> (status (fst (route_update_user env db req)) = 200 \<longrightarrow>
      (\<exists>u. payload (fst (route_update_user env db req)) = Some u \<and> lacks_password_hash u))"
  using register_user_object login_user_object route_list_users_object route_get_user_object
    route_create_user_object route_update_user_object
  by blast

theorem responses_omit_password_hash_witness:
  "status (fst (register demo_env demo_db (demo_request\<lparr>body := Obj bob_body\<rparr>))) = 201
   \<and> lacks_password_hash
        (payload_user (fst (register demo_env demo_db (demo_request\<lparr>body := Obj bob_body\<rparr>))))
   \<and> status (login demo_env demo_db
        (demo_request\<lparr>body := Obj [(''email'', Str ''a@x.com''), (''password'', Str ''password1'')]\<rparr>))
       = 200
   \<and> lacks_password_hash
        (payload_user (login demo_env demo_db
           (demo_request\<lparr>body := Obj [(''email'', Str ''a@x.com''), (''password'', Str ''password1'')]\<rparr>)))
   \<and> status (fst (route_list_users demo_env demo_db
        (demo_request\<lparr>authorization := Some ''Bearer root-token''\<rparr>))) = 200
   \<and> (\<exists>us. payload (fst (route_list_users demo_env demo_db
                 (demo_request\<lparr>authorization := Some ''Bearer root-token''\<rparr>))) = Some (Arr us)
           \<and> list_all lacks_password_hash us)
   \<and> status (fst (route_get_user demo_env demo_db
        (demo_request\<lparr>authorization := Some ''Bearer alice-token''\<rparr>))) = 200
   \<and> (\<exists>u. payload (fst (route_get_user demo_env demo_db
                (demo_request\<lparr>authorization := Some ''Bearer alice-token''\<rparr>))) = Some u
           \<and> lacks_password_hash u)
   \<and> status (fst (route_create_user demo_env demo_db
        (demo_request\<lparr>authorization := Some ''Bearer root-token'', body := Obj bob_body\<rparr>))) = 201
   \<and> (\<exists>u. payload (fst (route_create_user demo_env demo_db
                (demo_request\<lparr>authorization := Some ''Bearer root-token'', body := Obj bob_body\<rparr>)))
             = Some u
           \<and> lacks_password_hash u)
   \<and> status (fst (route_update_user demo_env demo_db
        (demo_request\<lparr>authorization := Some ''Bearer alice-token'',
                       body := Obj [(''username'', Str ''alicia'')]\<rparr>))) = 200
   \<and> (\<exists>u. payload (fst (route_update_user demo_env demo_db
                (demo_request\<lparr>authorization := Some ''Bearer alice-token'',
                               body := Obj [(''username'', Str ''alicia'')]\<rparr>))) = Some u
           \<and> lacks_password_hash u)"
proof -
  have e1: "status (fst (register demo_env demo_db (demo_request\<lparr>body := Obj bob_body\<rparr>))) = 201"
    by (simp add: eval_defs)
  have e2: "status (login demo_env demo_db
        (demo_request\<lparr>body := Obj [(''email'', Str ''a@x.com''), (''password'', Str ''password1'')]\<rparr>))
       = 200"
    by (simp add: eval_defs)
  have e3: "status (fst (route_list_users demo_env demo_db
        (demo_request\<lparr>authorization := Some ''Bearer root-token''\<rparr>))) = 200"
    by (simp add: eval_defs)
  have e4: "status (fst (route_get_user demo_env demo_db
        (demo_request\<lparr>authorization := Some ''Bearer alice-token''\<rparr>))) = 200"
    by (simp add: eval_defs)
  have e5: "status (fst (route_create_user demo_env demo_db
        (demo_request\<lparr>authorization := Some ''Bearer root-token'', body := Obj bob_body\<rparr>))) = 201"
    by (simp add: eval_defs)
  have e6: "status (fst (route_update_user demo_env demo_db
        (demo_request\<lparr>authorization := Some ''Bearer alice-token'',
                       body := Obj [(''username'', Str ''alicia'')]\<rparr>))) = 200"
    by (simp add: eval_defs)
  note c1 = responses_omit_password_hash[THEN conjunct1, rule_format, OF e1]
  note c2 = responses_omit_password_hash[THEN conjunct2, THEN conjunct1, rule_format, OF e2]
  note c3 = responses_omit_password_hash[THEN conjunct2, THEN conjunct2, THEN conjunct1,
      rule_format, OF e3]
  note c4 = responses_omit_password_hash[THEN conjunct2, THEN conjunct2, THEN conjunct2,
      THEN conjunct1, rule_format, OF e4]
  note c5 = responses_omit_password_hash[THEN conjunct2, THEN conjunct2, THEN conjunct2,
      THEN conjunct2, THEN conjunct1, rule_format, OF e5]
  note c6 = responses_omit_password_hash[THEN conjunct2, THEN conjunct2, THEN conjunct2,
      THEN conjunct2, THEN conjunct2, rule_format, OF e6]
  show ?thesis
    by (intro conjI) (rule e1 c1 e2 c2 e3 c3 e4 c4 e5 c5 e6 c6)+
qed

section \<open>The authentication gate\<close>

text \<open>
  C3. \<open>authenticateToken\<close> answers 401 when the \<open>Authorization\<close> header is
  missing, 403 when \<open>jwt.verify\<close> refuses the signature (JsonWebTokenError), 403 when
  the token has expired (TokenExpiredError), and 401 when the token verifies but its
  \<open>userId\<close> is the id of no row; in the last case each of the five protected routes
  returns that 401 and leaves the table as it is. After a successful \<open>DELETE\<close> no row
  has the deleted id, so a token issued to the deleted user falls under the last case.
\<close>

theorem authentication_gate_statuses:
  "(authorization req = None \<longrightarrow>
      authenticateToken env db req = Respond (error_response 401 ''Token nao fornecido''))
   \<and> (authorization req = Some (''Bearer '' @ t) \<and> t \<noteq> [] \<and> CHR '' '' \<notin> set t \<longrightarrow>
        (jwt_verify env t = Inl JsonWebTokenError \<longrightarrow>
           authenticateToken env db req = Respond (error_response 403 ''Token invalido''))
      \<and> (jwt_verify env t = Inl TokenExpiredError \<longrightarrow>
           authenticateToken env db req = Respond (error_response 403 ''Token expirado''))
      \<and> (jwt_verify env t = Inr (Obj kvs) \<and> get_prop kvs ''userId'' = Str uid
           \<and> \<not> list_ex (\<lambda>r. id_col r = SqlText uid) db \<longrightarrow>
           authenticateToken env db req = Respond (error_response 401 ''Usuario nao encontrado'')
           \<and> route_list_users env db req = (error_response 401 ''Usuario nao encontrado'', db)
           \<and> route_get_user env db req = (error_response 401 ''Usuario nao encontrado'', db)
           \<and> route_create_user env db req = (error_response 401 ''Usuario nao encontrado'', db)
           \<and> route_update_user env db req = (error_response 401 ''Usuario nao encontrado'', db)
           \<and> route_delete_user env db req = (error_response 401 ''Usuario nao encontrado'', db)))
   \<and> (delete_user env0 db0 dreq = (r0, db) \<and> status r0 = 204 \<longrightarrow>
        \<not> list_ex (\<lambda>r. id_col r = SqlText (params_id dreq)) db)
   \<and> status (error_response 401 ''Token nao fornecido'') = 401
   \<and> status (error_response 403 ''Token invalido'') = 403
   \<and> status (error_response 403 ''Token expirado'') = 403
   \<and> status (error_response 401 ''Usuario nao encontrado'') = 401"
proof (intro conjI impI)
  assume "authorization req = None"
  then show "authenticateToken env db req = Respond (error_response 401 ''Token nao fornecido'')"
    by (rule authenticateToken_absent)
next
  assume a: "authorization req = Some (''Bearer '' @ t) \<and> t \<noteq> [] \<and> CHR '' '' \<notin> set t"
  then have b: "authorization req = Some (''Bearer '' @ t)" "t \<noteq> []" "CHR '' '' \<notin> set t"
    by simp_all
  {
    assume "jwt_verify env t = Inl JsonWebTokenError"
    then show "authenticateToken env db req = Respond (error_response 403 ''Token invalido'')"
      by (simp add: authenticateToken_Bearer[OF b] authenticate_catch_def)
  }
  {
    assume "jwt_verify env t = Inl TokenExpiredError"
    then show "authenticateToken env db req = Respond (error_response 403 ''Token expirado'')"
      by (simp add: authenticateToken_Bearer[OF b] authenticate_catch_def)
  }
  assume c: "jwt_verify env t = Inr (Obj kvs) \<and> get_prop kvs ''userId'' = Str uid
           \<and> \<not> list_ex (\<lambda>r. id_col r = SqlText uid) db"
  then have g: "authenticateToken env db req
                  = Respond (error_response 401 ''Usuario nao encontrado'')"
    using authenticateToken_unknown_subject[OF b] by blast
  then show "authenticateToken env db req
                  = Respond (error_response 401 ''Usuario nao encontrado'')" .
  from g show "route_list_users env db req = (error_response 401 ''Usuario nao encontrado'', db)"
    by (simp add: route_list_users_def protected_Respond)
  from g show "route_get_user env db req = (error_response 401 ''Usuario nao encontrado'', db)"
    by (simp add: route_get_user_def protected_Respond)
  from g show "route_create_user env db req = (error_response 401 ''Usuario nao encontrado'', db)"
    by (simp add: route_create_user_def protected_Respond)
  from g show "route_update_user env db req = (error_response 401 ''Usuario nao encontrado'', db)"
    by (simp add: route_update_user_def protected_Respond)
  from g show "route_delete_user env db req = (error_response 401 ''Usuario nao encontrado'', db)"
    by (simp add: route_delete_user_def protected_Respond)
next
  assume "delete_user env0 db0 dreq = (r0, db) \<and> status r0 = 204"
  then have "db = filter (\<lambda>r. \<not> sql_eq (id_col r) (SqlText (params_id dreq))) db0"
    using delete_user_cases by blast
  then show "\<not> list_ex (\<lambda>r. id_col r = SqlText (params_id dreq)) db"
    using sql_delete_removes by simp
qed (simp_all add: error_response_def json_response_def)

theorem authentication_gate_statuses_witness:
  "authenticateToken demo_env demo_db demo_request
     = Respond (error_response 401 ''Token nao fornecido'')
   \<and> authenticateToken demo_env demo_db (demo_request\<lparr>authorization := Some ''Bearer garbage''\<rparr>)
     = Respond (error_response 403 ''Token invalido'')
   \<and> authenticateToken demo_env demo_db (demo_request\<lparr>authorization := Some ''Bearer old-token''\<rparr>)
     = Respond (error_response 403 ''Token expirado'')
   \<and> route_get_user demo_env demo_db (demo_request\<lparr>authorization := Some ''Bearer ghost-token''\<rparr>)
     = (error_response 401 ''Usuario nao encontrado'', demo_db)
   \<and> delete_user demo_env demo_db demo_request = (\<lparr>status = 204, payload = None\<rparr>, [root_row])
   \<and> route_get_user demo_env [root_row] (demo_request\<lparr>authorization := Some ''Bearer alice-token''\<rparr>)
     = (error_response 401 ''Usuario nao encontrado'', [root_row])"
proof (intro conjI)
  have "authorization demo_request = None"
    by (simp add: demo_request_def)
  from authentication_gate_statuses[THEN conjunct1, THEN mp, OF this]
  show "authenticateToken demo_env demo_db demo_request
          = Respond (error_response 401 ''Token nao fornecido'')" .
next
  let ?req = "demo_request\<lparr>authorization := Some ''Bearer garbage''\<rparr>"
  have a: "authorization ?req = Some (''Bearer '' @ ''garbage'') \<and> ''garbage'' \<noteq> []
             \<and> CHR '' '' \<notin> set ''garbage''"
    by simp
  have b: "jwt_verify demo_env ''garbage'' = Inl JsonWebTokenError"
    by (simp add: demo_env_def)
  from authentication_gate_statuses[THEN conjunct2, THEN conjunct1, THEN mp, OF a,
      THEN conjunct1, THEN mp, OF b]
  show "authenticateToken demo_env demo_db ?req = Respond (error_response 403 ''Token invalido'')" .
next
  let ?req = "demo_request\<lparr>authorization := Some ''Bearer old-token''\<rparr>"
  have a: "authorization ?req = Some (''Bearer '' @ ''old-token'') \<and> ''old-token'' \<noteq> []
             \<and> CHR '' '' \<notin> set ''old-token''"
    by simp
  have b: "jwt_verify demo_env ''old-token'' = Inl TokenExpiredError"
    by (simp add: demo_env_def)
  from authentication_gate_statuses[THEN conjunct2, THEN conjunct1, THEN mp, OF a,
      THEN conjunct2, THEN conjunct1, THEN mp, OF b]
  show "authenticateToken demo_env demo_db ?req = Respond (error_response 403 ''Token expirado'')" .
next
  let ?req = "demo_request\<lparr>authorization := Some ''Bearer ghost-token''\<rparr>"
  have a: "authorization ?req = Some (''Bearer '' @ ''ghost-token'') \<and> ''ghost-token'' \<noteq> []
             \<and> CHR '' '' \<notin> set ''ghost-token''"
    by simp
  have b: "jwt_verify demo_env ''ghost-token'' = Inr (Obj [(''userId'', Str ''id-9'')])
             \<and> get_prop [(''userId'', Str ''id-9'')] ''userId'' = Str ''id-9''
             \<and> \<not> list_ex (\<lambda>r. id_col r = SqlText ''id-9'') demo_db"
    by (simp add: demo_env_def get_prop_def demo_db_def root_row_def alice_row_def)
  from authentication_gate_statuses[THEN conjunct2, THEN conjunct1, THEN mp, OF a,
      THEN conjunct2, THEN conjunct2, THEN mp, OF b, THEN conjunct2, THEN conjunct2,
      THEN conjunct1]
  show "route_get_user demo_env demo_db ?req
          = (error_response 401 ''Usuario nao encontrado'', demo_db)" .
next
  show d: "delete_user demo_env demo_db demo_request = (\<lparr>status = 204, payload = None\<rparr>, [root_row])"
    by (simp add: delete_user_def select_by_id_Str sql_delete_Str sql_eq_text demo_db_def
        demo_request_def root_row_def alice_row_def)
  let ?req = "demo_request\<lparr>authorization := Some ''Bearer alice-token''\<rparr>"
  have a: "authorization ?req = Some (''Bearer '' @ ''alice-token'') \<and> ''alice-token'' \<noteq> []
             \<and> CHR '' '' \<notin> set ''alice-token''"
    by simp
  have "delete_user demo_env demo_db demo_request = (\<lparr>status = 204, payload = None\<rparr>, [root_row])
          \<and> status \<lparr>status = 204, payload = None\<rparr> = 204"
    using d by simp
  from authentication_gate_statuses[THEN conjunct2, THEN conjunct2, THEN conjunct1, THEN mp, OF this]
  have gone: "\<not> list_ex (\<lambda>r. id_col r = SqlText ''id-1'') [root_row]"
    by (simp add: demo_request_def)
  have b: "jwt_verify demo_env ''alice-token'' = Inr (Obj [(''userId'', Str ''id-1'')])
             \<and> get_prop [(''userId'', Str ''id-1'')] ''userId'' = Str ''id-1''
             \<and> \<not> list_ex (\<lambda>r. id_col r = SqlText ''id-1'') [root_row]"
    using gone by (simp add: demo_env_def get_prop_def)
  from authentication_gate_statuses[THEN conjunct2, THEN conjunct1, THEN mp, OF a,
      THEN conjunct2, THEN conjunct2, THEN mp, OF b, THEN conjunct2, THEN conjunct2,
      THEN conjunct1]
  show "route_get_user demo_env [root_row] ?req
          = (error_response 401 ''Usuario nao encontrado'', [root_row])" .
qed

section \<open>The frame of an update\<close>




section \<open>Login failures\<close>

text \<open>
  C5. Of two login requests that both carry an email and a password, where the password
  of the second is not a string (the number 1234, say): the one whose email finds no row
  is answered 401 \<open>{error: 'Credenciais invalidas'}\<close>, and the one whose email finds a
  row is answered 500 \<open>{error: 'Erro ao fazer login'}\<close>, because \<open>bcrypt.compare\<close>
  rejects a password that is not a string and the \<open>catch\<close> answers. The two responses
  differ, so they tell whether the email exists. (When \<open>bcrypt.compare\<close> returns false,
  as it does for a wrong password that is a string, the two responses are the same 401.)
\<close>

theorem login_reveals_known_email:
  assumes "destructure (body req1) = Inr props1"
    and "truthy (get_prop props1 ''email'')" and "truthy (get_prop props1 ''password'')"
    and "select_by_email env db (get_prop props1 ''email'') = Inr None"
    and "destructure (body req2) = Inr props2"
    and "truthy (get_prop props2 ''email'')" and "truthy (get_prop props2 ''password'')"
    and "select_by_email env db (get_prop props2 ''email'') = Inr (Some u)"
    and "\<forall>s. get_prop props2 ''password'' \<noteq> Str s"
  shows "login env db req1 = error_response 401 ''Credenciais invalidas''
       \<and> status (login env db req1) = 401
       \<and> login env db req2 = error_response 500 ''Erro ao fazer login''
       \<and> status (login env db req2) = 500
       \<and> login env db req1 \<noteq> login env db req2"
  using login_unknown_email[OF assms(2-4) assms(1)]
    login_compare_throws[OF assms(6-8) bcrypt_compare_js_not_string[OF assms(9)] assms(5)]
  by (simp add: invalid_credentials_response_def error_response_def json_response_def)

theorem login_reveals_known_email_witness:
  "select_by_email demo_env demo_db (Str ''nobody@x.com'') = Inr None
   \<and> select_by_email demo_env demo_db (Str ''a@x.com'') = Inr (Some alice_row)
   \<and> login demo_env demo_db
        (demo_request\<lparr>body := Obj [(''email'', Str ''nobody@x.com''), (''password'', Num 1234)]\<rparr>)
     = error_response 401 ''Credenciais invalidas''
   \<and> login demo_env demo_db
        (demo_request\<lparr>body := Obj [(''email'', Str ''a@x.com''), (''password'', Num 1234)]\<rparr>)
     = error_response 500 ''Erro ao fazer login''
   \<and> login demo_env demo_db
        (demo_request\<lparr>body := Obj [(''email'', Str ''nobody@x.com''), (''password'', Num 1234)]\<rparr>)
     \<noteq> login demo_env demo_db
        (demo_request\<lparr>body := Obj [(''email'', Str ''a@x.com''), (''password'', Num 1234)]\<rparr>)"
proof -
  let ?p1 = "[(''email'', Str ''nobody@x.com''), (''password'', Num 1234)]"
  let ?p2 = "[(''email'', Str ''a@x.com''), (''password'', Num 1234)]"
  let ?r1 = "demo_request\<lparr>body := Obj ?p1\<rparr>"
  let ?r2 = "demo_request\<lparr>body := Obj ?p2\<rparr>"
  have a: "select_by_email demo_env demo_db (Str ''nobody@x.com'') = Inr None"
    by (simp add: select_by_email_Str sql_eq_text demo_db_def root_row_def alice_row_def)
  have b: "select_by_email demo_env demo_db (Str ''a@x.com'') = Inr (Some alice_row)"
    by (simp add: select_by_email_Str sql_eq_text demo_db_def root_row_def alice_row_def)
  have "login demo_env demo_db ?r1 = error_response 401 ''Credenciais invalidas''
       \<and> status (login demo_env demo_db ?r1) = 401
       \<and> login demo_env demo_db ?r2 = error_response 500 ''Erro ao fazer login''
       \<and> status (login demo_env demo_db ?r2) = 500
       \<and> login demo_env demo_db ?r1 \<noteq> login demo_env demo_db ?r2"
    by (rule login_reveals_known_email[where u = alice_row and ?props1.0 = ?p1
          and ?props2.0 = ?p2])
      (simp_all add: get_prop_def a b)
  with a b show ?thesis by (simp add: error_response_def json_response_def)
qed

section \<open>Validation of registrations\<close>

text \<open>
  C6. A registration or an admin create whose \<open>req.body\<close> is \<open>undefined\<close>, which
  holds no \<open>username\<close>, \<open>password\<close> or \<open>email\<close>, is not answered 400: reading the
  fields throws inside the \<open>try\<close> and the \<open>catch\<close> answers 500
  (\<open>'Erro ao registrar usuario'\<close>, \<open>'Erro ao criar usuario'\<close>). The table is
  unchanged. (For a body whose properties can be read, a missing field or a password
  string shorter than 8 is answered 400.)
\<close>

theorem registration_without_body_answers_500:
  "register env db (req\<lparr>body := Undefined\<rparr>)
     = (error_response 500 ''Erro ao registrar usuario'', db)
   \<and> create_user env db (req\<lparr>body := Undefined\<rparr>)
     = (error_response 500 ''Erro ao criar usuario'', db)
   \<and> status (fst (register env db (req\<lparr>body := Undefined\<rparr>))) = 500
   \<and> status (fst (create_user env db (req\<lparr>body := Undefined\<rparr>))) = 500
   \<and> fst (register env db (req\<lparr>body := Undefined\<rparr>))
       \<notin> {missing_fields_response, weak_password_response}
   \<and> fst (create_user env db (req\<lparr>body := Undefined\<rparr>))
       \<notin> {missing_fields_response, weak_password_response}
   \<and> destructure Undefined = Inl TypeError"
  by (simp add: register_def create_user_def response_defs)

theorem registration_without_body_answers_500_witness:
  "register demo_env demo_db (demo_request\<lparr>body := Undefined\<rparr>)
     = (error_response 500 ''Erro ao registrar usuario'', demo_db)
   \<and> create_user demo_env demo_db (demo_request\<lparr>body := Undefined\<rparr>)
     = (error_response 500 ''Erro ao criar usuario'', demo_db)
   \<and> status (fst (register demo_env demo_db (demo_request\<lparr>body := Undefined\<rparr>))) \<noteq> 400
   \<and> status (fst (create_user demo_env demo_db (demo_request\<lparr>body := Undefined\<rparr>))) \<noteq> 400"
  using registration_without_body_answers_500[of demo_env demo_db demo_request]
  by (simp add: error_response_def json_response_def)


section \<open>Duplicate emails\<close>

text \<open>
  C7. For a body with a non-empty username, a password of at least 8 characters and a
  non-empty email, all strings: when a row has that email, register and admin create
  answer 400 "email already in use" and leave the table, with that row, as it is; and
  after the \<open>DELETE\<close> of the user who had that email, in a table that met its
  constraints, admin create and register (when \<open>jwt.sign\<close> returns a token) with a fresh
  id answer 201 and add the new row.
\<close>

theorem duplicate_email_and_reuse:
  assumes "destructure (body req) = Inr props"
    and "get_prop props ''username'' = Str u" and "u \<noteq> []"
    and "get_prop props ''password'' = Str p" and "8 \<le> length p"
    and "get_prop props ''email'' = Str e" and "e \<noteq> []"
  shows "(first \<in> set db \<and> email first = SqlText e \<longrightarrow>
            register env db req = (constraint_response, db)
          \<and> create_user env db req = (constraint_response, db)
          \<and> first \<in> set (snd (register env db req))
          \<and> first \<in> set (snd (create_user env db req)))
       \<and> (constraints_hold db0
            \<and> select_by_id env0 db0 (Str (params_id dreq)) = Inr (Some victim)
            \<and> email victim = SqlText e
            \<and> delete_user env0 db0 dreq = (r0, db)
            \<and> \<not> list_ex (\<lambda>x. id_col x = SqlText (uuidv4 env)) db \<longrightarrow>
            status (fst (create_user env db req)) = 201
          \<and> snd (create_user env db req)
              = db @ [new_row env (uuidv4 env) (SqlText u) (SqlText (bcrypt_hash env p)) (SqlText e)]
          \<and> (jwt_sign env (Obj [(''userId'', Str (uuidv4 env)), (''username'', Str u),
                                 (''email'', Str e), (''is_admin'', Bool False)]) = Some token \<longrightarrow>
               status (fst (register env db req)) = 201
             \<and> snd (register env db req)
                 = db @ [new_row env (uuidv4 env) (SqlText u) (SqlText (bcrypt_hash env p))
                           (SqlText e)]))
       \<and> constraint_response
            = \<lparr>status = 400,
               payload = Some (Obj [(''error'', Str ''Email ja esta em uso''),
                                    (''details'',
                                     Str ''Um usuario com este email ja existe no sistema'')])\<rparr>"
proof (intro conjI impI)
  assume a: "first \<in> set db \<and> email first = SqlText e"
  then have ex: "list_ex (\<lambda>x. email x = SqlText e) db"
    by (auto simp: list_ex_iff)
  from register_duplicate_email[OF assms ex]
  show r: "register env db req = (constraint_response, db)" .
  from create_duplicate_email[OF assms ex]
  show c: "create_user env db req = (constraint_response, db)" .
  from a r show "first \<in> set (snd (register env db req))" by simp
  from a c show "first \<in> set (snd (create_user env db req))" by simp
next
  assume b: "constraints_hold db0
            \<and> select_by_id env0 db0 (Str (params_id dreq)) = Inr (Some victim)
            \<and> email victim = SqlText e
            \<and> delete_user env0 db0 dreq = (r0, db)
            \<and> \<not> list_ex (\<lambda>x. id_col x = SqlText (uuidv4 env)) db"
  then have f: "find (\<lambda>r. sql_eq (id_col r) (SqlText (params_id dreq))) db0 = Some victim"
    by (simp add: select_by_id_Str)
  from b delete_user_found[of env0 db0 dreq victim]
  have db: "db = filter (\<lambda>r. \<not> sql_eq (id_col r) (SqlText (params_id dreq))) db0"
    by simp
  from b have "distinct (map email db0)"
    by (simp add: constraints_hold_def)
  from b deleted_email_is_free[OF this f] db
  have free: "\<not> list_ex (\<lambda>x. email x = SqlText e) db"
    by simp
  from b have fresh: "\<not> list_ex (\<lambda>x. id_col x = SqlText (uuidv4 env)) db"
    by simp
  from create_fresh[OF assms free fresh]
  show "status (fst (create_user env db req)) = 201"
    and "snd (create_user env db req)
              = db @ [new_row env (uuidv4 env) (SqlText u) (SqlText (bcrypt_hash env p)) (SqlText e)]"
    by simp_all
  assume t: "jwt_sign env (Obj [(''userId'', Str (uuidv4 env)), (''username'', Str u),
                                 (''email'', Str e), (''is_admin'', Bool False)]) = Some token"
  from register_fresh[OF assms free fresh t]
  show "status (fst (register env db req)) = 201"
    and "snd (register env db req)
                 = db @ [new_row env (uuidv4 env) (SqlText u) (SqlText (bcrypt_hash env p))
                           (SqlText e)]"
    by simp_all
qed (simp add: response_defs)

theorem duplicate_email_and_reuse_witness:
  "register demo_env demo_db (demo_request\<lparr>body := Obj second_alice_body\<rparr>)
     = (constraint_response, demo_db)
   \<and> create_user demo_env demo_db (demo_request\<lparr>body := Obj second_alice_body\<rparr>)
     = (constraint_response, demo_db)
   \<and> alice_row \<in> set demo_db
   \<and> constraints_hold demo_db
   \<and> delete_user demo_env demo_db demo_request = (\<lparr>status = 204, payload = None\<rparr>, [root_row])
   \<and> status (fst (register demo_env [root_row] (demo_request\<lparr>body := Obj second_alice_body\<rparr>))) = 201
   \<and> snd (register demo_env [root_row] (demo_request\<lparr>body := Obj second_alice_body\<rparr>))
       = [root_row, new_row demo_env ''id-2'' (SqlText ''alice2'') (SqlText ''$2b$10$password9'')
                      (SqlText ''a@x.com'')]
   \<and> status (fst (create_user demo_env [root_row] (demo_request\<lparr>body := Obj second_alice_body\<rparr>))) = 201"
proof -
  let ?req = "demo_request\<lparr>body := Obj second_alice_body\<rparr>"
  have f: "destructure (body ?req) = Inr second_alice_body"
    "get_prop second_alice_body ''username'' = Str ''alice2''" "''alice2'' \<noteq> []"
    "get_prop second_alice_body ''password'' = Str ''password9''" "8 \<le> length ''password9''"
    "get_prop second_alice_body ''email'' = Str ''a@x.com''" "''a@x.com'' \<noteq> []"
    by (simp_all add: get_prop_def second_alice_body_def)
  have a: "alice_row \<in> set demo_db \<and> email alice_row = SqlText ''a@x.com''"
    by (simp add: demo_db_def alice_row_def)
  have d: "constraints_hold demo_db"
    by (simp add: constraints_hold_def demo_db_def root_row_def alice_row_def)
  have s: "select_by_id demo_env demo_db (Str (params_id demo_request)) = Inr (Some alice_row)"
    by (simp add: select_by_id_Str sql_eq_text demo_db_def demo_request_def root_row_def alice_row_def)
  have del: "delete_user demo_env demo_db demo_request
               = (\<lparr>status = 204, payload = None\<rparr>, [root_row])"
    by (simp add: delete_user_def select_by_id_Str sql_delete_Str sql_eq_text demo_db_def
        demo_request_def root_row_def alice_row_def)
  have fresh: "\<not> list_ex (\<lambda>x. id_col x = SqlText (uuidv4 demo_env)) [root_row]"
    by (simp add: demo_env_def root_row_def)
  have tok: "jwt_sign demo_env (Obj [(''userId'', Str (uuidv4 demo_env)), (''username'', Str ''alice2''),
                (''email'', Str ''a@x.com''), (''is_admin'', Bool False)]) = Some ''signed''"
    by (simp add: demo_env_def)
  note w = duplicate_email_and_reuse[OF f]
  from w[THEN conjunct1, THEN mp, OF a]
  have p1: "register demo_env demo_db ?req = (constraint_response, demo_db)
      \<and> create_user demo_env demo_db ?req = (constraint_response, demo_db)"
    by simp
  from d s a del fresh
  have h2: "constraints_hold demo_db
            \<and> select_by_id demo_env demo_db (Str (params_id demo_request)) = Inr (Some alice_row)
            \<and> email alice_row = SqlText ''a@x.com''
            \<and> delete_user demo_env demo_db demo_request = (\<lparr>status = 204, payload = None\<rparr>, [root_row])
            \<and> \<not> list_ex (\<lambda>x. id_col x = SqlText (uuidv4 demo_env)) [root_row]"
    by simp
  note p2 = w[THEN conjunct2, THEN conjunct1, THEN mp, OF h2]
  from p2 have c1: "status (fst (create_user demo_env [root_row] ?req)) = 201"
    by simp
  from p2[THEN conjunct2, THEN conjunct2, THEN mp, OF tok]
  have r1: "status (fst (register demo_env [root_row] ?req)) = 201
      \<and> snd (register demo_env [root_row] ?req)
          = [root_row, new_row demo_env ''id-2'' (SqlText ''alice2'') (SqlText ''$2b$10$password9'')
                      (SqlText ''a@x.com'')]"
    by (simp add: demo_env_def)
  from p1 a d del r1 c1 show ?thesis by simp
qed

section \<open>Headers without a bearer token\<close>

text \<open>
  \<open>authenticateToken\<close> does not look at the scheme word: \<open>Basic alice-token\<close> is
  verified and accepted like \<open>Bearer alice-token\<close>, and \<open>Basic abc\<close> is answered
  403 (invalid token), not 401.
\<close>

theorem other_scheme_reaches_verification_counterexample:
  "authenticateToken demo_env demo_db (demo_request\<lparr>authorization := Some ''Basic alice-token''\<rparr>)
     = Next (demo_request\<lparr>authorization := Some ''Basic alice-token'',
                           user := Some (auth_row alice_row)\<rparr>)
   \<and> authenticateToken demo_env demo_db (demo_request\<lparr>authorization := Some ''Basic abc''\<rparr>)
     = Respond (error_response 403 ''Token invalido'')
   \<and> authenticateToken demo_env demo_db (demo_request\<lparr>authorization := Some ''Basic abc''\<rparr>)
     \<noteq> Respond (error_response 401 ''Token nao fornecido'')"
  by (simp add: authenticateToken_def header_token_def select_by_id_Str sql_eq_text
      authenticate_catch_def error_response_def json_response_def get_prop_def
      demo_env_def demo_db_def demo_request_def root_row_def alice_row_def)

text \<open>
  C8. \<open>authenticateToken\<close> answers 401 "token not supplied", whatever
  \<open>jwt.verify\<close> would say, when the \<open>Authorization\<close> header is absent, when it
  contains no space, and when nothing stands between its first space and the next space
  or the end. Otherwise the text between the first space and the next is verified as the
  token, whatever word precedes the first space.
\<close>

theorem missing_token_cases:
  "(authorization req = None \<longrightarrow>
      authenticateToken env db req = Respond (error_response 401 ''Token nao fornecido''))
   \<and> (authorization req = Some h \<and> CHR '' '' \<notin> set h \<longrightarrow>
      authenticateToken env db req = Respond (error_response 401 ''Token nao fornecido''))
   \<and> (authorization req = Some (scheme @ CHR '' '' # rest) \<and> CHR '' '' \<notin> set scheme \<longrightarrow>
      authenticateToken env db req =
        (if takeWhile (\<lambda>x. x \<noteq> CHR '' '') rest = []
         then Respond (error_response 401 ''Token nao fornecido'')
         else (case jwt_verify env (takeWhile (\<lambda>x. x \<noteq> CHR '' '') rest) of
                 Inl e \<Rightarrow> Respond (authenticate_catch e)
               | Inr decoded \<Rightarrow>
                   (case select_by_id env db (decoded_userId decoded) of
                      Inl e \<Rightarrow> Respond (authenticate_catch e)
                    | Inr None \<Rightarrow> Respond (error_response 401 ''Usuario nao encontrado'')
                    | Inr (Some u) \<Rightarrow> Next (req\<lparr>user := Some (auth_row u)\<rparr>)))))
   \<and> status (error_response 401 ''Token nao fornecido'') = 401"
proof (intro conjI impI)
  assume "authorization req = None"
  then show "authenticateToken env db req = Respond (error_response 401 ''Token nao fornecido'')"
    by (rule authenticateToken_absent)
next
  assume "authorization req = Some h \<and> CHR '' '' \<notin> set h"
  then have "header_token (authorization req) = None \<or> header_token (authorization req) = Some []"
    by (simp add: header_token_no_space)
  then show "authenticateToken env db req = Respond (error_response 401 ''Token nao fornecido'')"
    by (rule authenticateToken_no_token)
next
  let ?t = "takeWhile (\<lambda>x. x \<noteq> CHR '' '') rest"
  assume "authorization req = Some (scheme @ CHR '' '' # rest) \<and> CHR '' '' \<notin> set scheme"
  then have t: "header_token (authorization req) = Some ?t"
    by (simp add: header_token_second_piece)
  show "authenticateToken env db req =
        (if ?t = []
         then Respond (error_response 401 ''Token nao fornecido'')
         else (case jwt_verify env ?t of
                 Inl e \<Rightarrow> Respond (authenticate_catch e)
               | Inr decoded \<Rightarrow>
                   (case select_by_id env db (decoded_userId decoded) of
                      Inl e \<Rightarrow> Respond (authenticate_catch e)
                    | Inr None \<Rightarrow> Respond (error_response 401 ''Usuario nao encontrado'')
                    | Inr (Some u) \<Rightarrow> Next (req\<lparr>user := Some (auth_row u)\<rparr>))))"
  proof (cases "?t = []")
    case True
    with t show ?thesis by (simp add: authenticateToken_no_token)
  next
    case False
    with authenticateToken_token[OF t False] show ?thesis by simp
  qed
qed (simp add: error_response_def json_response_def)

theorem missing_token_cases_witness:
  "authenticateToken demo_env demo_db demo_request
     = Respond (error_response 401 ''Token nao fornecido'')
   \<and> authenticateToken demo_env demo_db (demo_request\<lparr>authorization := Some ''Bearer''\<rparr>)
     = Respond (error_response 401 ''Token nao fornecido'')
   \<and> authenticateToken demo_env demo_db (demo_request\<lparr>authorization := Some ''Bearer  alice-token''\<rparr>)
     = Respond (error_response 401 ''Token nao fornecido'')
   \<and> authenticateToken demo_env demo_db (demo_request\<lparr>authorization := Some ''Token alice-token x''\<rparr>)
     = Next (demo_request\<lparr>authorization := Some ''Token alice-token x'',
                           user := Some (auth_row alice_row)\<rparr>)"
proof (intro conjI)
  have "authorization demo_request = None"
    by (simp add: demo_request_def)
  from missing_token_cases[THEN conjunct1, THEN mp, OF this]
  show "authenticateToken demo_env demo_db demo_request
          = Respond (error_response 401 ''Token nao fornecido'')" .
next
  let ?req = "demo_request\<lparr>authorization := Some ''Bearer''\<rparr>"
  have "authorization ?req = Some ''Bearer'' \<and> CHR '' '' \<notin> set ''Bearer''"
    by simp
  from missing_token_cases[THEN conjunct2, THEN conjunct1, THEN mp, OF this]
  show "authenticateToken demo_env demo_db ?req
          = Respond (error_response 401 ''Token nao fornecido'')" .
next
  let ?req = "demo_request\<lparr>authorization := Some ''Bearer  alice-token''\<rparr>"
  have "authorization ?req = Some (''Bearer'' @ CHR '' '' # '' alice-token'')
          \<and> CHR '' '' \<notin> set ''Bearer''"
    by simp
  from missing_token_cases[THEN conjunct2, THEN conjunct2, THEN conjunct1, THEN mp, OF this]
  show "authenticateToken demo_env demo_db ?req
          = Respond (error_response 401 ''Token nao fornecido'')"
    by simp
next
  let ?req = "demo_request\<lparr>authorization := Some ''Token alice-token x''\<rparr>"
  have "authorization ?req = Some (''Token'' @ CHR '' '' # ''alice-token x'')
          \<and> CHR '' '' \<notin> set ''Token''"
    by simp
  from missing_token_cases[where env = demo_env and db = demo_db,
      THEN conjunct2, THEN conjunct2, THEN conjunct1, THEN mp, OF this]
  show "authenticateToken demo_env demo_db ?req
          = Next (demo_request\<lparr>authorization := Some ''Token alice-token x'',
                                user := Some (auth_row alice_row)\<rparr>)"
    by (simp add: demo_env_def select_by_id_Str sql_eq_text demo_db_def root_row_def
        alice_row_def demo_request_def get_prop_def)
qed

section \<open>Registered users are not administrators\<close>

text \<open>
  C9. A row of \<open>users\<close> has the columns id, username, password_hash, email, is_admin and
  created_at. A registration changes the table by at most one added row, whose
  \<open>is_admin\<close> is 0 whatever the body says; after a 201 the new row has the generated
  id and \<open>requireAdmin\<close> answers 403 to its user.
\<close>

theorem registration_is_never_admin:
  assumes "register env db req = (r, db')"
  shows "(db' = db \<or> (\<exists>row. db' = db @ [row] \<and> is_admin row = SqlNum 0))
       \<and> (status r = 201 \<longrightarrow>
            (\<exists>row. db' = db @ [row] \<and> id_col row = SqlText (uuidv4 env) \<and> is_admin row = SqlNum 0
               \<and> \<not> truthy (user_is_admin (auth_row row))
               \<and> (\<forall>q. requireAdmin (q\<lparr>user := Some (auth_row row)\<rparr>)
                      = Respond (error_response 403 ''Acesso negado. Apenas administradores.''))))
       \<and> (\<forall>row. map fst (row_object row)
              = [''id'', ''username'', ''password_hash'', ''email'', ''is_admin'', ''created_at''])"
proof -
  have cols: "\<forall>row. map fst (row_object row)
              = [''id'', ''username'', ''password_hash'', ''email'', ''is_admin'', ''created_at'']"
    by (simp add: row_object_def)
  have row: "is_admin (new_row env i a b c) = SqlNum 0 \<and> id_col (new_row env i a b c) = SqlText i
      \<and> \<not> truthy (user_is_admin (auth_row (new_row env i a b c)))
      \<and> (\<forall>q. requireAdmin (q\<lparr>user := Some (auth_row (new_row env i a b c))\<rparr>)
                      = Respond (error_response 403 ''Acesso negado. Apenas administradores.''))"
    for i a b c
    by (simp add: new_row_def auth_row_def requireAdmin_def)
  from register_cases[OF assms] consider "db' = db" "status r = 400 \<or> status r = 500"
    | a b c where "db' = db @ [new_row env (uuidv4 env) a b c]"
    by blast
  then have "(db' = db \<or> (\<exists>row. db' = db @ [row] \<and> is_admin row = SqlNum 0))
       \<and> (status r = 201 \<longrightarrow>
            (\<exists>row. db' = db @ [row] \<and> id_col row = SqlText (uuidv4 env) \<and> is_admin row = SqlNum 0
               \<and> \<not> truthy (user_is_admin (auth_row row))
               \<and> (\<forall>q. requireAdmin (q\<lparr>user := Some (auth_row row)\<rparr>)
                      = Respond (error_response 403 ''Acesso negado. Apenas administradores.''))))"
  proof cases
    case 1
    then show ?thesis by auto
  next
    case 2
    with row[of "uuidv4 env" a b c] show ?thesis by blast
  qed
  with cols show ?thesis by blast
qed

theorem registration_is_never_admin_witness:
  "register demo_env demo_db (demo_request\<lparr>body := Obj bob_body\<rparr>)
     = (json_response 201
          (Obj [(''message'', Str ''Usuario criado com sucesso''), (''token'', Str ''signed''),
                (''user'', Obj [(''id'', Str ''id-2''), (''username'', Str ''bob''),
                                (''email'', Str ''b@x.com''), (''is_admin'', Bool False)])]),
        demo_db @ [new_row demo_env ''id-2'' (SqlText ''bob'') (SqlText ''$2b$10$password2'')
                     (SqlText ''b@x.com'')])
   \<and> get_prop bob_body ''is_admin'' = Bool True
   \<and> (\<exists>row. demo_db @ [new_row demo_env ''id-2'' (SqlText ''bob'') (SqlText ''$2b$10$password2'')
                          (SqlText ''b@x.com'')] = demo_db @ [row]
           \<and> is_admin row = SqlNum 0)"
proof -
  have e: "register demo_env demo_db (demo_request\<lparr>body := Obj bob_body\<rparr>)
     = (json_response 201
          (Obj [(''message'', Str ''Usuario criado com sucesso''), (''token'', Str ''signed''),
                (''user'', Obj [(''id'', Str ''id-2''), (''username'', Str ''bob''),
                                (''email'', Str ''b@x.com''), (''is_admin'', Bool False)])]),
        demo_db @ [new_row demo_env ''id-2'' (SqlText ''bob'') (SqlText ''$2b$10$password2'')
                     (SqlText ''b@x.com'')])"
    by (simp add: eval_defs)
  have b: "get_prop bob_body ''is_admin'' = Bool True"
    by (simp add: get_prop_def bob_body_def)
  have s: "status (json_response 201 v) = 201" for v
    by (simp add: json_response_def)
  from registration_is_never_admin[OF e, THEN conjunct2, THEN conjunct1, THEN mp, OF s]
  have "\<exists>row. demo_db @ [new_row demo_env ''id-2'' (SqlText ''bob'') (SqlText ''$2b$10$password2'')
                          (SqlText ''b@x.com'')] = demo_db @ [row]
           \<and> is_admin row = SqlNum 0"
    by blast
  with e b show ?thesis by simp
qed

section \<open>Passwords that are not strings\<close>

text \<open>
  C10. With the number 1234 as password, \<open>password.length\<close> is \<open>undefined\<close>,
  \<open>undefined < 8\<close> is false, and register and admin create go past the length check:
  they do not answer 400 "weak password" but fail in \<open>bcrypt.hash\<close>, which rejects a
  number, with 500.
\<close>

theorem numeric_password_passes_length_check:
  "js_length (Num 1234) = Inr Undefined \<and> \<not> js_less env Undefined 8
   \<and> register env db
        (req\<lparr>body := Obj [(''username'', Str ''alice''), (''password'', Num 1234),
                      (''email'', Str ''a@x.com'')]\<rparr>)
       = (error_response 500 ''Erro ao registrar usuario'', db)
   \<and> create_user env db
        (req\<lparr>body := Obj [(''username'', Str ''alice''), (''password'', Num 1234),
                      (''email'', Str ''a@x.com'')]\<rparr>)
       = (error_response 500 ''Erro ao criar usuario'', db)
   \<and> error_response 500 ''Erro ao registrar usuario'' \<noteq> weak_password_response
   \<and> error_response 500 ''Erro ao criar usuario'' \<noteq> weak_password_response
   \<and> bcrypt_hash_js env (Num 1234) = Inl Error"
  by (simp add: register_def create_user_def get_prop_def Let_def bcrypt_hash_js_def
      response_defs)

theorem numeric_password_passes_length_check_witness:
  "register demo_env demo_db
        (demo_request\<lparr>body := Obj [(''username'', Str ''alice''), (''password'', Num 1234),
                               (''email'', Str ''a@x.com'')]\<rparr>)
       = (error_response 500 ''Erro ao registrar usuario'', demo_db)
   \<and> status (fst (register demo_env demo_db
        (demo_request\<lparr>body := Obj [(''username'', Str ''alice''), (''password'', Num 1234),
                               (''email'', Str ''a@x.com'')]\<rparr>))) \<noteq> 400"
  using numeric_password_passes_length_check[of demo_env demo_db demo_request]
  by (simp add: error_response_def json_response_def)

end
